theory Spec2Isabelle
  imports Complex_Main "HOL-Library.AList"
begin

section \<open>Python values\<close>

text \<open>
  The simulation computes with Python floats. They are modelled as real numbers:
  every statement below is about the arithmetic the code writes down, not about
  IEEE rounding. A Python dict with string keys is an association list in
  insertion order (\<open>AList.update\<close> overwrites in place and appends a new key at
  the end, as assignment to a dict does); the per-year histories keyed by the
  year index are maps \<open>int \<rightharpoonup> real\<close>. A draw from the process-wide random
  generator is an explicit argument of the function that makes the draw.
\<close>

definition dict_get :: "(string \<times> 'v) list \<Rightarrow> string \<Rightarrow> 'v \<Rightarrow> 'v" where
  "dict_get d k dflt = (case map_of d k of None \<Rightarrow> dflt | Some v \<Rightarrow> v)"

definition hist_get :: "(int \<rightharpoonup> real) \<Rightarrow> int \<Rightarrow> real \<Rightarrow> real" where
  "hist_get h k dflt = (case h k of None \<Rightarrow> dflt | Some v \<Rightarrow> v)"

datatype py_error = TypeError | ZeroDivisionError

section \<open>models/export\_sector.py\<close>

subsection \<open>ExportSectorModel\<close>

record export_sector =
  sector_name :: string
  current_volume :: real
  base_growth_rate :: real
  global_market_share :: real
  value_chain_position_label :: string
  competitiveness_factors :: "(string \<times> real) list"
  tariff_exposure :: real
  subsectors :: "string list"
  historical_volumes :: "int \<rightharpoonup> real"
  historical_market_shares :: "int \<rightharpoonup> real"
  historical_competitiveness :: "int \<rightharpoonup> real"

text \<open>\<open>_calculate_overall_competitiveness\<close>: 0.5 without factors, their mean otherwise.\<close>

definition calculate_overall_competitiveness :: "(string \<times> real) list \<Rightarrow> real" where
  "calculate_overall_competitiveness factors =
     (if factors = [] then 0.5
      else sum_list (map snd factors) / real (length factors))"

text \<open>\<open>ExportSectorModel.__init__\<close>: the three histories start with year index 0.\<close>

definition ExportSectorModel_init ::
  "string \<Rightarrow> real \<Rightarrow> real \<Rightarrow> real \<Rightarrow> string \<Rightarrow> (string \<times> real) list \<Rightarrow> real
     \<Rightarrow> string list \<Rightarrow> export_sector" where
  "ExportSectorModel_init name volume growth_trajectory share position factors exposure subs =
     \<lparr> sector_name = name,
       current_volume = volume,
       base_growth_rate = growth_trajectory,
       global_market_share = share,
       value_chain_position_label = position,
       competitiveness_factors = factors,
       tariff_exposure = exposure,
       subsectors = subs,
       historical_volumes = [0 \<mapsto> volume],
       historical_market_shares = [0 \<mapsto> share],
       historical_competitiveness = [0 \<mapsto> calculate_overall_competitiveness factors] \<rparr>"

text \<open>The keyword arguments of \<open>simulate_year\<close> after \<open>year_index\<close>.\<close>

record sector_inputs =
  global_demand_growth :: real
  tariff_changes :: "(string \<times> real) list"
  exchange_rate_impact :: real
  logistics_performance :: real
  trade_policy_impact :: real
  compliance_impact :: real
  digital_adoption :: real
  competitor_growth :: "(string \<times> real) list"

text \<open>The dict \<open>simulate_year\<close> returns; a key that is also an attribute or an
  argument carries the prefix \<open>r_\<close>.\<close>

record sector_result =
  r_sector_name :: string
  r_year_index :: int
  export_volume :: real
  growth_rate :: real
  r_global_market_share :: real
  competitiveness :: real
  r_value_chain_position :: string
  tariff_impact :: real
  r_exchange_rate_impact :: real
  logistics_impact :: real
  r_trade_policy_impact :: real
  r_compliance_impact :: real
  competitor_impact :: real
  random_variation :: real

text \<open>The local variables of \<open>simulate_year\<close>, in the order the code computes them.\<close>

definition prev_volume :: "'a export_sector_scheme \<Rightarrow> int \<Rightarrow> real" where
  "prev_volume self year_index =
     hist_get (historical_volumes self) (year_index - 1) (current_volume self)"

definition prev_competitiveness :: "'a export_sector_scheme \<Rightarrow> int \<Rightarrow> real" where
  "prev_competitiveness self year_index =
     hist_get (historical_competitiveness self) (year_index - 1)
       (calculate_overall_competitiveness (competitiveness_factors self))"

definition prev_market_share :: "'a export_sector_scheme \<Rightarrow> int \<Rightarrow> real" where
  "prev_market_share self year_index =
     hist_get (historical_market_shares self) (year_index - 1) (global_market_share self)"

definition adjusted_growth :: "'a export_sector_scheme \<Rightarrow> sector_inputs \<Rightarrow> real" where
  "adjusted_growth self inp =
     base_growth_rate self * (1 + 0.5 * (global_demand_growth inp - 0.03))"

definition weighted_tariff_impact :: "'a export_sector_scheme \<Rightarrow> sector_inputs \<Rightarrow> real" where
  "weighted_tariff_impact self inp =
     (if tariff_changes inp \<noteq> []
      then - sum_list (map snd (tariff_changes inp)) / real (length (tariff_changes inp))
             * tariff_exposure self
      else 0)"

definition competitiveness_change :: "sector_inputs \<Rightarrow> real" where
  "competitiveness_change inp =
     0.2 * exchange_rate_impact inp
     + 0.3 * (logistics_performance inp - 0.6)
     + 0.2 * trade_policy_impact inp
     + 0.1 * digital_adoption inp
     + - 0.2 * compliance_impact inp"

definition new_competitiveness :: "'a export_sector_scheme \<Rightarrow> int \<Rightarrow> sector_inputs \<Rightarrow> real" where
  "new_competitiveness self year_index inp =
     max 0.1 (min 1.0 (prev_competitiveness self year_index + competitiveness_change inp * 0.1))"

definition competitor_impact_of :: "'a export_sector_scheme \<Rightarrow> sector_inputs \<Rightarrow> real" where
  "competitor_impact_of self inp =
     foldl (\<lambda>acc (competitor, growth). acc - (growth - base_growth_rate self) * 0.2)
       0 (competitor_growth inp)"

definition effective_growth_rate ::
  "'a export_sector_scheme \<Rightarrow> int \<Rightarrow> sector_inputs \<Rightarrow> real \<Rightarrow> real" where
  "effective_growth_rate self year_index inp noise =
     adjusted_growth self inp
     + weighted_tariff_impact self inp
     + (new_competitiveness self year_index inp - prev_competitiveness self year_index) * 2
     + competitor_impact_of self inp
     + noise"

definition new_volume :: "'a export_sector_scheme \<Rightarrow> int \<Rightarrow> sector_inputs \<Rightarrow> real \<Rightarrow> real" where
  "new_volume self year_index inp noise =
     prev_volume self year_index * (1 + effective_growth_rate self year_index inp noise)"

definition new_market_share ::
  "'a export_sector_scheme \<Rightarrow> int \<Rightarrow> sector_inputs \<Rightarrow> real \<Rightarrow> real" where
  "new_market_share self year_index inp noise =
     (let global_market_growth = global_demand_growth inp;
          market_share_change =
            0.2 * (effective_growth_rate self year_index inp noise - global_market_growth)
      in max 0 (min 1 (prev_market_share self year_index * (1 + market_share_change))))"

text \<open>
  \<open>ExportSectorModel.simulate_year\<close>. \<open>noise\<close> is the value that
  \<open>np.random.normal(0, 0.02)\<close> returns. The result is the returned dict and the
  object with its three histories extended at \<open>year_index\<close>.
\<close>

definition ExportSectorModel_simulate_year ::
  "'a export_sector_scheme \<Rightarrow> int \<Rightarrow> sector_inputs \<Rightarrow> real
     \<Rightarrow> sector_result \<times> 'a export_sector_scheme" where
  "ExportSectorModel_simulate_year self year_index inp noise =
     (\<lparr> r_sector_name = sector_name self,
        r_year_index = year_index,
        export_volume = new_volume self year_index inp noise,
        growth_rate = effective_growth_rate self year_index inp noise,
        r_global_market_share = new_market_share self year_index inp noise,
        competitiveness = new_competitiveness self year_index inp,
        r_value_chain_position = value_chain_position_label self,
        tariff_impact = weighted_tariff_impact self inp,
        r_exchange_rate_impact = exchange_rate_impact inp,
        logistics_impact = logistics_performance inp - 0.6,
        r_trade_policy_impact = trade_policy_impact inp,
        r_compliance_impact = compliance_impact inp,
        competitor_impact = competitor_impact_of self inp,
        random_variation = noise \<rparr>,
      self\<lparr> historical_volumes :=
              (historical_volumes self)(year_index \<mapsto> new_volume self year_index inp noise),
            historical_market_shares :=
              (historical_market_shares self)
                (year_index \<mapsto> new_market_share self year_index inp noise),
            historical_competitiveness :=
              (historical_competitiveness self)
                (year_index \<mapsto> new_competitiveness self year_index inp) \<rparr>)"

text \<open>A sector as the claims' examples use it: garments, with the values of the
  default configuration.\<close>

definition rmg_base :: export_sector where
  "rmg_base = ExportSectorModel_init ''rmg'' 38000 0.06 0.065 ''low_to_mid''
     [(''labor_cost'', 0.8), (''quality'', 0.6)] 0.7 []"

definition neutral_inputs :: sector_inputs where
  "neutral_inputs =
     \<lparr> global_demand_growth = 0.03, tariff_changes = [], exchange_rate_impact = 0,
       logistics_performance = 0.6, trade_policy_impact = 0, compliance_impact = 0,
       digital_adoption = 0, competitor_growth = [] \<rparr>"

subsection \<open>The specialised sector models\<close>

text \<open>
  The subclasses take \<open>**kwargs\<close> and pass them on to the base method, whose
  signature is closed: a keyword the base method does not know makes the
  \<open>super().simulate_year\<close> call raise \<open>TypeError\<close> before anything is computed.
  \<open>extra_kwargs\<close> holds such keywords.
\<close>

record sector_kwargs = sector_inputs +
  extra_kwargs :: "(string \<times> real) list"

definition base_inputs :: "sector_kwargs \<Rightarrow> sector_inputs" where
  "base_inputs kw = sector_inputs.truncate kw"

record sector_config =
  cfg_name :: string
  cfg_current_volume :: real
  cfg_growth_trajectory :: real
  cfg_global_market_share :: real
  cfg_value_chain_position :: string
  cfg_competitiveness_factors :: "(string \<times> real) list"
  cfg_tariff_exposure :: real
  cfg_subsectors :: "string list"

definition super_init :: "sector_config \<Rightarrow> export_sector" where
  "super_init config =
     ExportSectorModel_init (cfg_name config) (cfg_current_volume config)
       (cfg_growth_trajectory config) (cfg_global_market_share config)
       (cfg_value_chain_position config) (cfg_competitiveness_factors config)
       (cfg_tariff_exposure config) (cfg_subsectors config)"

record rmg_sector = export_sector +
  buyer_concentration :: real
  fashion_responsiveness :: real
  compliance_cost_structure :: "(string \<times> real) list"
  backward_linkage_development :: real
  foreign_ownership :: real

definition RMGSectorModel_init :: "sector_config \<Rightarrow> rmg_sector" where
  "RMGSectorModel_init config =
     export_sector.extend (super_init config)
       (rmg_sector.fields 0.7 0.6
          [(''labor'', 0.5), (''environmental'', 0.3), (''safety'', 0.4)] 0.4 0.3)"

record rmg_result = sector_result +
  r_fashion_responsiveness :: real
  r_backward_linkage_development :: real
  r_buyer_concentration :: real

text \<open>\<open>compliance_cost_impact\<close> and the factor \<open>results['export_volume']\<close> is
  multiplied by.\<close>

definition compliance_cost_impact :: "rmg_sector \<Rightarrow> real" where
  "compliance_cost_impact self =
     - (sum_list (map snd (compliance_cost_structure self))
          / real (length (compliance_cost_structure self))) * 0.1"

definition rmg_multiplier :: "rmg_sector \<Rightarrow> real" where
  "rmg_multiplier self = 1 + compliance_cost_impact self"

definition RMGSectorModel_simulate_year ::
  "rmg_sector \<Rightarrow> int \<Rightarrow> sector_kwargs \<Rightarrow> real \<Rightarrow> py_error + (rmg_result \<times> rmg_sector)" where
  "RMGSectorModel_simulate_year self year_index kwargs noise =
     (if extra_kwargs kwargs \<noteq> [] then Inl TypeError
      else
        let (results, self1) =
              ExportSectorModel_simulate_year self year_index (base_inputs kwargs) noise;
            self2 = self1\<lparr> fashion_responsiveness :=
                             min 0.9 (fashion_responsiveness self1 + 0.02) \<rparr>;
            self3 = self2\<lparr> backward_linkage_development :=
                             min 0.8 (backward_linkage_development self2 + 0.015) \<rparr>
        in if compliance_cost_structure self3 = [] then Inl ZeroDivisionError
           else
             Inr (sector_result.extend
                    (results\<lparr> export_volume := export_volume results * rmg_multiplier self3 \<rparr>)
                    (rmg_result.fields
                       (fashion_responsiveness self3)
                       (backward_linkage_development self3)
                       (max 0.5 (buyer_concentration self3 - 0.01))),
                  self3))"

record emerging_sector = export_sector +
  niche_market_penetration :: real
  product_quality_level :: real
  knowledge_spillover_coefficient :: real
  skill_premium :: real
  patent_count :: int
  global_reputation :: real

definition EmergingSectorModel_init :: "sector_config \<Rightarrow> emerging_sector" where
  "EmergingSectorModel_init config =
     export_sector.extend (super_init config)
       (emerging_sector.fields 0.3 0.6 0.4 0.2 5 0.4)"

record emerging_result = sector_result +
  product_quality :: real
  r_niche_market_penetration :: real
  r_patent_count :: int
  r_global_reputation :: real

text \<open>The attribute updates of \<open>EmergingSectorModel.simulate_year\<close> after the base
  call; \<open>new_patents\<close> is the value \<open>np.random.poisson\<close> returns.\<close>

definition emerging_update :: "emerging_sector \<Rightarrow> sector_kwargs \<Rightarrow> int \<Rightarrow> emerging_sector" where
  "emerging_update self1 kwargs new_patents =
     (let quality_improvement = 0.03 * dict_get (extra_kwargs kwargs) ''r_and_d_investment'' 0.5;
          self2 = self1\<lparr> product_quality_level :=
                           min 0.95 (product_quality_level self1 + quality_improvement) \<rparr>;
          market_penetration_growth = 0.04 * product_quality_level self2;
          self3 = self2\<lparr> niche_market_penetration :=
                           min 0.8 (niche_market_penetration self2 + market_penetration_growth) \<rparr>;
          self4 = self3\<lparr> patent_count := patent_count self3 + new_patents \<rparr>;
          reputation_growth = 0.03 * product_quality_level self4
      in self4\<lparr> global_reputation := min 0.9 (global_reputation self4 + reputation_growth) \<rparr>)"

definition premium_factor :: "emerging_sector \<Rightarrow> real" where
  "premium_factor self = 1 + global_reputation self * 0.2"

definition EmergingSectorModel_simulate_year ::
  "emerging_sector \<Rightarrow> int \<Rightarrow> sector_kwargs \<Rightarrow> real \<Rightarrow> int
     \<Rightarrow> py_error + (emerging_result \<times> emerging_sector)" where
  "EmergingSectorModel_simulate_year self year_index kwargs noise new_patents =
     (if extra_kwargs kwargs \<noteq> [] then Inl TypeError
      else
        let (results, self1) =
              ExportSectorModel_simulate_year self year_index (base_inputs kwargs) noise;
            self5 = emerging_update self1 kwargs new_patents
        in Inr (sector_result.extend
                  (results\<lparr> export_volume := export_volume results * premium_factor self5 \<rparr>)
                  (emerging_result.fields
                     (product_quality_level self5)
                     (niche_market_penetration self5)
                     (patent_count self5)
                     (global_reputation self5)),
                self5))"

record traditional_sector = export_sector +
  commodity_price_sensitivity :: real
  seasonal_volatility :: real
  processing_technology_level :: real
  certification_coverage :: real
  specialty_market_share :: real
  climate_vulnerability :: real

definition TraditionalSectorModel_init :: "sector_config \<Rightarrow> traditional_sector" where
  "TraditionalSectorModel_init config =
     export_sector.extend (super_init config)
       (traditional_sector.fields 0.8 0.15 0.4 0.2 0.1 0.7)"

record traditional_result = sector_result +
  price_effect :: real
  seasonal_effect :: real
  climate_impact :: real
  certification_premium :: real
  processing_technology :: real
  r_specialty_market_share :: real

definition traditional_update :: "traditional_sector \<Rightarrow> sector_kwargs \<Rightarrow> traditional_sector" where
  "traditional_update self1 kwargs =
     (let tech_improvement = 0.02 * dict_get (extra_kwargs kwargs) ''technology_investment'' 0.5;
          self2 = self1\<lparr> processing_technology_level :=
                           min 0.9 (processing_technology_level self1 + tech_improvement) \<rparr>;
          cert_growth = 0.03 * dict_get (extra_kwargs kwargs) ''sustainability_focus'' 0.5;
          self3 = self2\<lparr> certification_coverage :=
                           min 0.8 (certification_coverage self2 + cert_growth) \<rparr>;
          specialty_growth = 0.04 * certification_coverage self3
      in self3\<lparr> specialty_market_share :=
                   min 0.6 (specialty_market_share self3 + specialty_growth) \<rparr>)"

text \<open>\<open>normal_draw\<close> is the value of \<open>np.random.normal(0, 0.1)\<close> and
  \<open>seasonal\<close> the value of \<open>np.random.uniform(-v, v)\<close>.\<close>

definition traditional_multiplier ::
  "traditional_sector \<Rightarrow> sector_kwargs \<Rightarrow> real \<Rightarrow> real \<Rightarrow> real" where
  "traditional_multiplier self kwargs normal_draw seasonal =
     (let price_fluctuation = normal_draw * commodity_price_sensitivity self;
          climate = - 0.05 * climate_vulnerability self
                      * dict_get (extra_kwargs kwargs) ''climate_severity'' 0.5;
          combined_effect = price_fluctuation + seasonal + climate;
          premium = certification_coverage self * 0.3
      in 1 + combined_effect + premium)"

definition TraditionalSectorModel_simulate_year ::
  "traditional_sector \<Rightarrow> int \<Rightarrow> sector_kwargs \<Rightarrow> real \<Rightarrow> real \<Rightarrow> real
     \<Rightarrow> py_error + (traditional_result \<times> traditional_sector)" where
  "TraditionalSectorModel_simulate_year self year_index kwargs noise normal_draw seasonal =
     (if extra_kwargs kwargs \<noteq> [] then Inl TypeError
      else
        let (results, self1) =
              ExportSectorModel_simulate_year self year_index (base_inputs kwargs) noise;
            self4 = traditional_update self1 kwargs
        in Inr (sector_result.extend
                  (results\<lparr> export_volume :=
                     export_volume results
                       * traditional_multiplier self4 kwargs normal_draw seasonal \<rparr>)
                  (traditional_result.fields
                     (normal_draw * commodity_price_sensitivity self4)
                     seasonal
                     (- 0.05 * climate_vulnerability self4
                        * dict_get (extra_kwargs kwargs) ''climate_severity'' 0.5)
                     (certification_coverage self4 * 0.3)
                     (processing_technology_level self4)
                     (specialty_market_share self4)),
                self4))"

text \<open>Keyword arguments and configurations for the examples.\<close>

definition neutral_kwargs :: sector_kwargs where
  "neutral_kwargs = sector_inputs.extend neutral_inputs (sector_kwargs.fields [])"

definition rmg_config :: "real \<Rightarrow> sector_config" where
  "rmg_config volume =
     \<lparr> cfg_name = ''rmg'', cfg_current_volume = volume, cfg_growth_trajectory = 0.06,
       cfg_global_market_share = 0.065, cfg_value_chain_position = ''low_to_mid'',
       cfg_competitiveness_factors = [(''labor_cost'', 0.8), (''quality'', 0.6)],
       cfg_tariff_exposure = 0.7, cfg_subsectors = [] \<rparr>"

definition rmg_zero_run :: "py_error + (rmg_result \<times> rmg_sector)" where
  "rmg_zero_run =
     RMGSectorModel_simulate_year (RMGSectorModel_init (rmg_config 0)) 1 neutral_kwargs 0"

definition rmg_run :: "py_error + (rmg_result \<times> rmg_sector)" where
  "rmg_run =
     RMGSectorModel_simulate_year (RMGSectorModel_init (rmg_config 38000)) 1 neutral_kwargs 0"

section \<open>models/structural\_transformation.py\<close>

text \<open>
  One entry of \<open>export_sectors\<close>; the key \<open>'value'\<close> is the field \<open>export_value\<close>.
\<close>

record sector_data =
  export_value :: real
  complexity :: real
  value_chain_position :: real

record yearly_metrics =
  export_diversity_hhi :: "real list"
  export_diversity_sectors :: "(string \<times> real) list list"
  value_chain_position_by_year :: "int \<rightharpoonup> (string \<times> real) list"
  capability_index :: real
  industrial_policy_effectiveness :: real

record structural_model =
  export_sectors :: "(string \<times> sector_data) list"
  metrics :: yearly_metrics

definition export_values :: "structural_model \<Rightarrow> (string \<times> real) list" where
  "export_values self = map (\<lambda>(sector, data). (sector, export_value data)) (export_sectors self)"

definition total_exports :: "structural_model \<Rightarrow> real" where
  "total_exports self = sum_list (map snd (export_values self))"

text \<open>
  The loop of \<open>calculate_export_diversification\<close>, carrying \<open>hhi\<close> and
  \<open>sector_shares\<close>. Python's float division raises \<open>ZeroDivisionError\<close> on a zero
  divisor; the loop reaches the division only when there is a sector.
\<close>

fun hhi_loop ::
  "real \<Rightarrow> (string \<times> real) list \<Rightarrow> real \<Rightarrow> (string \<times> real) list
     \<Rightarrow> py_error + (real \<times> (string \<times> real) list)" where
  "hhi_loop tot [] hhi sector_shares = Inr (hhi, sector_shares)"
| "hhi_loop tot ((sector, v) # rest) hhi sector_shares =
     (if tot = 0 then Inl ZeroDivisionError
      else let share = v / tot
           in hhi_loop tot rest (hhi + share ^ 2) (AList.update sector share sector_shares))"

definition calculate_export_diversification ::
  "structural_model \<Rightarrow> int \<Rightarrow> py_error + (real \<times> structural_model)" where
  "calculate_export_diversification self year =
     (case hhi_loop (total_exports self) (export_values self) 0 [] of
        Inl e \<Rightarrow> Inl e
      | Inr (hhi, sector_shares) \<Rightarrow>
          Inr (hhi,
               self\<lparr> metrics := (metrics self)
                 \<lparr> export_diversity_hhi := export_diversity_hhi (metrics self) @ [hhi],
                   export_diversity_sectors :=
                     export_diversity_sectors (metrics self) @ [sector_shares] \<rparr> \<rparr>))"

text \<open>The HHI as the specification defines it: the sum of the squared shares.\<close>

definition hhi_spec :: "(string \<times> real) list \<Rightarrow> real" where
  "hhi_spec vs = (\<Sum>(sector, v) \<leftarrow> vs. (v / sum_list (map snd vs)) ^ 2)"

text \<open>The sectors with every export value multiplied by \<open>k\<close>.\<close>

definition rescale :: "real \<Rightarrow> structural_model \<Rightarrow> structural_model" where
  "rescale k self =
     self\<lparr> export_sectors :=
       map (\<lambda>(sector, data). (sector, data\<lparr> export_value := export_value data * k \<rparr>))
         (export_sectors self) \<rparr>"

text \<open>
  \<open>simulate_value_chain_upgrading\<close>. The body of the loop for one sector, with
  \<open>random_effect\<close> the value of \<open>random.uniform(-0.005, 0.015)\<close>:
\<close>

definition upgrade_sector :: "real \<Rightarrow> real \<Rightarrow> sector_data \<Rightarrow> sector_data" where
  "upgrade_sector capability_effect random_effect data =
     (let base_upgrade = 0.01;
          complexity_effect = complexity data * 0.01;
          total_upgrade = base_upgrade + capability_effect + complexity_effect + random_effect;
          diminishing_factor = 1 - value_chain_position data * 0.7;
          total_upgrade = total_upgrade * diminishing_factor
      in data\<lparr> value_chain_position :=
                  min 0.95 (value_chain_position data + total_upgrade) \<rparr>)"

text \<open>The loop over the sectors; the \<open>i\<close>-th sector uses the \<open>i\<close>-th draw.\<close>

fun upgrade_loop ::
  "real \<Rightarrow> (nat \<Rightarrow> real) \<Rightarrow> nat \<Rightarrow> (string \<times> sector_data) list
     \<Rightarrow> (string \<times> sector_data) list" where
  "upgrade_loop capability_effect draws i [] = []"
| "upgrade_loop capability_effect draws i ((sector, data) # rest) =
     (sector, upgrade_sector capability_effect (draws i) data)
       # upgrade_loop capability_effect draws (Suc i) rest"

text \<open>The summary after the loop divides by the number of sectors.\<close>

definition simulate_value_chain_upgrading ::
  "structural_model \<Rightarrow> int \<Rightarrow> (nat \<Rightarrow> real)
     \<Rightarrow> py_error + ((string \<times> real) list \<times> structural_model)" where
  "simulate_value_chain_upgrading self year draws =
     (let capability_effect = capability_index (metrics self) * 0.02;
          sectors = upgrade_loop capability_effect draws 0 (export_sectors self);
          value_chain_positions =
            map (\<lambda>(sector, data). (sector, value_chain_position data)) sectors
      in if value_chain_positions = [] then Inl ZeroDivisionError
         else Inr (value_chain_positions,
                   self\<lparr> export_sectors := sectors,
                         metrics := (metrics self)
                           \<lparr> value_chain_position_by_year :=
                               (value_chain_position_by_year (metrics self))
                                 (year \<mapsto> value_chain_positions) \<rparr> \<rparr>))"

text \<open>The model as \<open>__init__\<close> builds it from the default \<open>export_sectors\<close>, cut to
  three of its ten sectors, and one without sectors.\<close>

definition initial_metrics :: yearly_metrics where
  "initial_metrics =
     \<lparr> export_diversity_hhi = [], export_diversity_sectors = [],
       value_chain_position_by_year = Map.empty,
       capability_index = 0.35, industrial_policy_effectiveness = 0.5 \<rparr>"

definition three_sectors :: structural_model where
  "three_sectors =
     \<lparr> export_sectors =
         [(''rmg'', \<lparr> export_value = 38.0, complexity = 0.3, value_chain_position = 0.25 \<rparr>),
          (''leather'', \<lparr> export_value = 1.8, complexity = 0.4, value_chain_position = 0.3 \<rparr>),
          (''jute'', \<lparr> export_value = 1.2, complexity = 0.2, value_chain_position = 0.4 \<rparr>)],
       metrics = initial_metrics \<rparr>"

definition no_sectors :: structural_model where
  "no_sectors = \<lparr> export_sectors = [], metrics = initial_metrics \<rparr>"

definition zero_sectors :: structural_model where
  "zero_sectors =
     \<lparr> export_sectors =
         [(''rmg'', \<lparr> export_value = 0, complexity = 0.3, value_chain_position = 0.25 \<rparr>),
          (''jute'', \<lparr> export_value = 0, complexity = 0.2, value_chain_position = 0.4 \<rparr>)],
       metrics = initial_metrics \<rparr>"

subsection \<open>Python floats\<close>

text \<open>
  A Python \<open>float\<close> is an IEEE 754 binary64 number: a finite value, an infinity
  (\<open>Infinity True\<close> the positive one) or NaN. The result of an arithmetic operation
  on finite floats is the exact result rounded to the nearest float, ties to the
  even significand. (The sign of a zero is not kept; nothing below reads it.)
\<close>

datatype pyfloat = Finite real | Infinity bool | NaN

text \<open>\<open>ZeroDivisionError\<close> and \<open>OverflowError\<close>, as float arithmetic raises them.\<close>

datatype float_error = FloatDivisionByZero | FloatOverflow

definition pow2 :: "int \<Rightarrow> real" where
  "pow2 e = (if 0 \<le> e then 2 ^ nat e else 1 / 2 ^ nat (- e))"

definition round_half_even :: "real \<Rightarrow> int" where
  "round_half_even x =
     (let f = \<lfloor>x\<rfloor>; d = x - of_int f
      in if d < 1 / 2 then f else if 1 / 2 < d then f + 1 else if even f then f else f + 1)"

text \<open>
  The exponent of a nonnegative real in binary64: the least \<open>e\<close> from -1022 on with
  \<open>x < 2 ^ (e + 1)\<close>. It is -1022 for the subnormal numbers and for zero, and there
  is none from \<open>2 ^ 1024\<close> on.
\<close>

definition binary_exponent :: "real \<Rightarrow> int option" where
  "binary_exponent x = find (\<lambda>e. x < pow2 (e + 1)) [- 1022..1023]"

text \<open>
  Rounding to binary64: the significand has 53 bits, so the floats with the
  exponent \<open>e\<close> are the multiples of \<open>2 ^ (e - 52)\<close>, and what rounds to \<open>2 ^ 1024\<close> or
  more is an infinity.
\<close>

definition round_double :: "real \<Rightarrow> pyfloat" where
  "round_double x =
     (case binary_exponent \<bar>x\<bar> of
        None \<Rightarrow> Infinity (0 < x)
      | Some e \<Rightarrow>
          let r = of_int (round_half_even (\<bar>x\<bar> / pow2 (e - 52))) * pow2 (e - 52)
          in if pow2 1024 \<le> r then Infinity (0 < x)
             else Finite (if 0 < x then r else - r))"

fun float_add :: "pyfloat \<Rightarrow> pyfloat \<Rightarrow> pyfloat" where
  "float_add (Finite a) (Finite b) = round_double (a + b)"
| "float_add (Finite a) (Infinity t) = Infinity t"
| "float_add (Infinity s) (Finite b) = Infinity s"
| "float_add (Infinity s) (Infinity t) = (if s = t then Infinity s else NaN)"
| "float_add NaN y = NaN"
| "float_add (Finite a) NaN = NaN"
| "float_add (Infinity s) NaN = NaN"

fun float_mul :: "pyfloat \<Rightarrow> pyfloat \<Rightarrow> pyfloat" where
  "float_mul (Finite a) (Finite b) = round_double (a * b)"
| "float_mul (Finite a) (Infinity t) = (if a = 0 then NaN else Infinity (t = (0 < a)))"
| "float_mul (Infinity s) (Finite b) = (if b = 0 then NaN else Infinity (s = (0 < b)))"
| "float_mul (Infinity s) (Infinity t) = Infinity (s = t)"
| "float_mul NaN y = NaN"
| "float_mul (Finite a) NaN = NaN"
| "float_mul (Infinity s) NaN = NaN"

text \<open>\<open>x / y\<close> raises \<open>ZeroDivisionError\<close> when \<open>y\<close> is zero, whatever \<open>x\<close> is.\<close>

fun float_div :: "pyfloat \<Rightarrow> pyfloat \<Rightarrow> float_error + pyfloat" where
  "float_div (Finite a) (Finite b) =
     (if b = 0 then Inl FloatDivisionByZero else Inr (round_double (a / b)))"
| "float_div (Infinity s) (Finite b) =
     (if b = 0 then Inl FloatDivisionByZero else Inr (Infinity (s = (0 < b))))"
| "float_div NaN (Finite b) = (if b = 0 then Inl FloatDivisionByZero else Inr NaN)"
| "float_div (Finite a) (Infinity t) = Inr (Finite 0)"
| "float_div (Infinity s) (Infinity t) = Inr NaN"
| "float_div NaN (Infinity t) = Inr NaN"
| "float_div x NaN = Inr NaN"

text \<open>
  \<open>x ** 2\<close> is the C library's \<open>pow(x, 2.0)\<close>, read here as the correctly rounded
  square; Python raises \<open>OverflowError\<close> when a finite \<open>x\<close> has an infinite square.
\<close>

fun float_square :: "pyfloat \<Rightarrow> float_error + pyfloat" where
  "float_square (Finite a) =
     (case round_double (a * a) of
        Infinity s \<Rightarrow> Inl FloatOverflow
      | r \<Rightarrow> Inr r)"
| "float_square (Infinity s) = Inr (Infinity True)"
| "float_square NaN = Inr NaN"

text \<open>The builtin \<open>sum\<close> adds from the left, starting at 0. (From CPython 3.12 on it
  carries a compensation term for floats; the result is the same whenever no
  addition rounds.)\<close>

definition float_sum :: "pyfloat list \<Rightarrow> pyfloat" where
  "float_sum xs = foldl float_add (Finite 0) xs"

subsection \<open>calculate\_export\_diversification on floats\<close>

text \<open>
  \<open>StructuralTransformationModel.calculate_export_diversification\<close> with the
  arithmetic of the program. The argument is \<open>export_values\<close>, the \<open>'value'\<close> of every
  entry of \<open>self.export_sectors\<close>, each a float; the result is \<open>hhi\<close> and
  \<open>sector_shares\<close>, the two values appended to \<open>yearly_metrics\<close>, or the exception of
  the division or of the square.
\<close>

fun float_hhi_loop ::
  "pyfloat \<Rightarrow> (string \<times> pyfloat) list \<Rightarrow> pyfloat \<Rightarrow> (string \<times> pyfloat) list
     \<Rightarrow> float_error + (pyfloat \<times> (string \<times> pyfloat) list)" where
  "float_hhi_loop total_exps [] hhi sector_shares = Inr (hhi, sector_shares)"
| "float_hhi_loop total_exps ((sector, v) # rest) hhi sector_shares =
     (case float_div v total_exps of
        Inl e \<Rightarrow> Inl e
      | Inr share \<Rightarrow>
          (case float_square share of
             Inl e \<Rightarrow> Inl e
           | Inr squared \<Rightarrow>
               float_hhi_loop total_exps rest (float_add hhi squared)
                 (AList.update sector share sector_shares)))"

definition float_export_diversification ::
  "(string \<times> pyfloat) list \<Rightarrow> float_error + (pyfloat \<times> (string \<times> pyfloat) list)" where
  "float_export_diversification export_vals =
     float_hhi_loop (float_sum (map snd export_vals)) export_vals (Finite 0) []"

text \<open>The rescaled mapping \<open>{s: v * k for s, v in sectors.items()}\<close>.\<close>

definition float_rescale :: "pyfloat \<Rightarrow> (string \<times> pyfloat) list \<Rightarrow> (string \<times> pyfloat) list" where
  "float_rescale k export_vals = map (\<lambda>(sector, v). (sector, float_mul v k)) export_vals"

text \<open>Two sectors with the values \<open>2 ** -600\<close> and \<open>3 * 2 ** -600\<close>, and two with
  the values 1 and 3.\<close>

definition tiny_sectors :: "(string \<times> pyfloat) list" where
  "tiny_sectors = [(''rmg'', Finite (pow2 (- 600))), (''jute'', Finite (3 * pow2 (- 600)))]"

definition small_sectors :: "(string \<times> pyfloat) list" where
  "small_sectors = [(''rmg'', Finite 1), (''jute'', Finite 3)]"

section \<open>models/exchange\_rate.py\<close>

text \<open>The dict \<open>simulate_exchange_rate\<close> returns; a key that is also an attribute
  carries the prefix \<open>x_\<close>.\<close>

record exchange_result =
  x_year_index :: int
  exchange_rate :: real
  x_real_effective_rate :: real
  depreciation_rate :: real
  potential_depreciation :: real
  x_foreign_reserves :: real
  reserve_months :: real
  x_trade_balance :: real
  x_current_account_balance :: real
  capital_account_balance :: real
  overall_balance :: real
  intervention_cost :: real
  export_impact :: real
  import_impact :: real
  remittance_impact :: real
  market_volatility :: real
  exchange_rate_pressure :: real

record exchange_rate_model =
  initial_rate :: real
  annual_depreciation :: real
  volatility :: real
  intervention_threshold :: real
  intervention_strength :: real
  remittance_sensitivity :: real
  export_elasticity :: real
  import_elasticity :: real
  current_rate :: real
  real_effective_rate :: real
  foreign_reserves :: real
  trade_balance :: real
  current_account_balance :: real
  historical_rates :: "int \<rightharpoonup> real"
  historical_impacts :: "int \<rightharpoonup> exchange_result"

definition ExchangeRateModel_init :: "(string \<times> real) list \<Rightarrow> exchange_rate_model" where
  "ExchangeRateModel_init config =
     \<lparr> initial_rate = dict_get config ''initial_rate'' 110.0,
       annual_depreciation = dict_get config ''annual_depreciation'' 0.03,
       volatility = dict_get config ''volatility'' 0.05,
       intervention_threshold = dict_get config ''intervention_threshold'' 0.08,
       intervention_strength = dict_get config ''intervention_strength'' 0.6,
       remittance_sensitivity = dict_get config ''remittance_sensitivity'' 0.4,
       export_elasticity = dict_get config ''export_elasticity'' 0.7,
       import_elasticity = dict_get config ''import_elasticity'' 0.6,
       current_rate = dict_get config ''initial_rate'' 110.0,
       real_effective_rate = 1.0,
       foreign_reserves = 35000,
       trade_balance = 0,
       current_account_balance = 0,
       historical_rates = [0 \<mapsto> dict_get config ''initial_rate'' 110.0],
       historical_impacts = Map.empty \<rparr>"

text \<open>
  The steps of \<open>simulate_exchange_rate\<close>, in the order of the code. First the
  reserve adequacy, from the reserves after the overall balance has been added:
\<close>

definition reserve_months_of :: "real \<Rightarrow> real \<Rightarrow> real" where
  "reserve_months_of reserves imports =
     (let monthly_imports = imports / 12
      in if monthly_imports > 0 then reserves / monthly_imports else 12)"

definition reserve_pressure_of :: "real \<Rightarrow> real" where
  "reserve_pressure_of res_months =
     (if res_months < 6 then max 0 (min 1 ((3 - res_months) / 3)) else 0)"

text \<open>\<open>base_pressure\<close>; the caller has checked that \<open>imports\<close> is not zero.\<close>

definition base_pressure_of :: "real \<Rightarrow> real \<Rightarrow> (string \<times> real) list \<Rightarrow> real \<Rightarrow> real" where
  "base_pressure_of overall imports global_conditions reserve_pressure =
     - 0.3 * (overall / imports)
     + 0.2 * dict_get global_conditions ''dollar_index'' 1.0
     + - 0.1 * dict_get global_conditions ''global_risk_appetite'' 0.5
     + 0.15 * dict_get global_conditions ''regional_currency_trends'' 0
     + 0.25 * dict_get global_conditions ''oil_price_change'' 0
     + 0.2 * reserve_pressure"

text \<open>The central bank's branch: the actual depreciation, the cost of the
  intervention and the object with its reserves reduced by that cost.\<close>

definition central_bank_intervention ::
  "exchange_rate_model \<Rightarrow> real \<Rightarrow> real \<Rightarrow> real \<Rightarrow> real \<times> real \<times> exchange_rate_model" where
  "central_bank_intervention self potential intervention_stance imports =
     (if \<bar>potential\<bar> > intervention_threshold self \<and> intervention_stance > 0.3
      then
        let effectiveness = min (intervention_strength self * intervention_stance) 0.8;
            actual = potential * (1 - effectiveness);
            cost = \<bar>potential - actual\<bar> * imports * 0.5
        in (actual, cost, self\<lparr> foreign_reserves := foreign_reserves self - cost \<rparr>)
      else (potential, 0, self))"

text \<open>The new rates and the history of rates.\<close>

definition apply_depreciation :: "exchange_rate_model \<Rightarrow> int \<Rightarrow> real \<Rightarrow> exchange_rate_model" where
  "apply_depreciation self year_index actual =
     (let self3 = self\<lparr> current_rate := current_rate self * (1 + actual) \<rparr>;
          inflation_differential = 0.02;
          self4 = self3\<lparr> real_effective_rate :=
                    real_effective_rate self3 * (1 + actual - inflation_differential) \<rparr>
      in self4\<lparr> historical_rates :=
                  (historical_rates self4)(year_index \<mapsto> current_rate self4) \<rparr>)"

text \<open>
  \<open>simulate_exchange_rate\<close>; \<open>noise\<close> is the value of
  \<open>np.random.normal(0, self.volatility)\<close>. The pressure divides the overall balance
  by \<open>imports\<close>, which raises \<open>ZeroDivisionError\<close> when the imports are zero.
\<close>

definition simulate_exchange_rate ::
  "exchange_rate_model \<Rightarrow> int \<Rightarrow> (string \<times> real) list \<Rightarrow> (string \<times> real) list
     \<Rightarrow> (string \<times> real) list \<Rightarrow> real \<Rightarrow> py_error + (exchange_result \<times> exchange_rate_model)" where
  "simulate_exchange_rate self year_index balance_of_payments central_bank_policy
       global_conditions noise =
     (let exports = dict_get balance_of_payments ''exports'' 0;
          imports = dict_get balance_of_payments ''imports'' 0;
          remittances = dict_get balance_of_payments ''remittances'' 0;
          fdi = dict_get balance_of_payments ''fdi'' 0;
          aid_loans = dict_get balance_of_payments ''aid_loans'' 0;
          profit_repatriation = dict_get balance_of_payments ''profit_repatriation'' 0;
          other_outflows = dict_get balance_of_payments ''other_outflows'' 0;
          trade_bal = exports - imports;
          current_account = trade_bal + remittances - profit_repatriation;
          capital_account = fdi + aid_loans - other_outflows;
          overall = current_account + capital_account;
          self1 = self\<lparr> foreign_reserves := foreign_reserves self + overall \<rparr>;
          res_months = reserve_months_of (foreign_reserves self1) imports;
          reserve_pressure = reserve_pressure_of res_months
      in if imports = 0 then Inl ZeroDivisionError
         else
           let base_pressure = base_pressure_of overall imports global_conditions reserve_pressure;
               total_pressure = base_pressure + noise;
               potential = annual_depreciation self1 + total_pressure * 0.1;
               intervention_stance = dict_get central_bank_policy ''intervention_stance'' 0.5;
               (actual, cost, self2) =
                 central_bank_intervention self1 potential intervention_stance imports;
               self5 = apply_depreciation self2 year_index actual;
               results =
                 \<lparr> x_year_index = year_index,
                   exchange_rate = current_rate self5,
                   x_real_effective_rate = real_effective_rate self5,
                   depreciation_rate = actual,
                   potential_depreciation = potential,
                   x_foreign_reserves = foreign_reserves self5,
                   reserve_months = res_months,
                   x_trade_balance = trade_bal,
                   x_current_account_balance = current_account,
                   capital_account_balance = capital_account,
                   overall_balance = overall,
                   intervention_cost = cost,
                   export_impact = export_elasticity self5 * actual,
                   import_impact = - import_elasticity self5 * actual,
                   remittance_impact = remittance_sensitivity self5 * actual,
                   market_volatility = noise,
                   exchange_rate_pressure = base_pressure \<rparr>
           in Inr (results,
                   self5\<lparr> historical_impacts :=
                     (historical_impacts self5)(year_index \<mapsto> results) \<rparr>))"

text \<open>The balance of payments and the policy the engine passes, and a first year
  with no shock.\<close>

definition bop_estimate :: "(string \<times> real) list" where
  "bop_estimate =
     [(''exports'', 50000), (''imports'', 60000), (''remittances'', 20000), (''fdi'', 3000),
      (''aid_loans'', 1000), (''profit_repatriation'', 1500), (''other_outflows'', 500)]"

definition cb_policy_estimate :: "(string \<times> real) list" where
  "cb_policy_estimate =
     [(''intervention_stance'', 0.5), (''reserve_threshold'', 3.5),
      (''interest_rate_differential'', 0.02)]"

definition calm_run :: "py_error + (exchange_result \<times> exchange_rate_model)" where
  "calm_run =
     simulate_exchange_rate (ExchangeRateModel_init []) 0 bop_estimate cb_policy_estimate [] 0"

section \<open>models/geopolitical.py\<close>

subsection \<open>TradeWarImpactsModel\<close>

text \<open>
  \<open>self.active_trade_wars\<close> maps a conflict id to a dict
  \<open>{'started_year', 'intensity', 'duration_years'}\<close>. These inner dicts are objects:
  \<open>simulate_trade_wars\<close> updates them in place and returns
  \<open>self.active_trade_wars.copy()\<close>, a new outer dict that holds the same inner
  dicts. So the inner dicts live in a store, a list indexed by address, and both
  \<open>active_trade_wars\<close> and the copy in the result map the conflict id to the
  address. A new dict gets the next free address; addresses are never reused, so
  every address held is below the length of the store.
\<close>

record trade_war =
  started_year :: int
  intensity :: real
  duration_years :: int

type_synonym store = "trade_war list"

record trade_war_result =
  twr_year_index :: int
  twr_simulation_year :: int
  twr_trade_war_probability :: real
  twr_active_trade_wars :: "(string \<times> nat) list"
  twr_new_trade_wars :: "(string \<times> trade_war) list"
  twr_ended_trade_wars :: "string list"
  twr_order_diversion_potential :: "(string \<times> real) list"
  twr_market_diversification :: real
  twr_secondary_sanction_exposure :: real
  twr_tariff_escalation :: real
  twr_order_diversion_opportunities :: "(string \<times> real) list"
  twr_sanction_risk :: real
  twr_opportunity_score :: real
  twr_vulnerability_score :: real

record trade_war_model =
  tw_initial_probability :: real
  tw_annual_change :: real
  tw_current_probability :: real
  tw_active_trade_wars :: "(string \<times> nat) list"
  tw_order_diversion :: "(string \<times> real) list"
  tw_market_diversification :: real
  tw_secondary_sanction_exposure :: real
  tw_historical_impacts :: "(int \<times> trade_war_result) list"

definition TradeWarImpactsModel_init :: "(string \<times> real) list \<Rightarrow> trade_war_model" where
  "TradeWarImpactsModel_init config =
     \<lparr> tw_initial_probability = dict_get config ''initial'' 0.3,
       tw_annual_change = dict_get config ''annual_change'' (- 0.01),
       tw_current_probability = dict_get config ''initial'' 0.3,
       tw_active_trade_wars = [],
       tw_order_diversion =
         [(''rmg'', 0.6), (''footwear'', 0.5), (''light_manufacturing'', 0.4),
          (''electronics'', 0.3), (''other'', 0.2)],
       tw_market_diversification = 0.4,
       tw_secondary_sanction_exposure = 0.3,
       tw_historical_impacts = [] \<rparr>"

text \<open>\<open>int(x)\<close> truncates towards zero.\<close>

definition py_int :: "real \<Rightarrow> int" where
  "py_int x = (if 0 \<le> x then \<lfloor>x\<rfloor> else \<lceil>x\<rceil>)"

definition potential_conflicts :: "(string \<times> string \<times> real) list" where
  "potential_conflicts =
     [(''us'', ''china'', 0.7), (''us'', ''eu'', 0.5), (''china'', ''india'', 0.6),
      (''china'', ''vietnam'', 0.4)]"

text \<open>
  The values of \<open>np.random.random()\<close> and \<open>np.random.normal(0, 0.1)\<close> are the values
  \<open>draws k\<close>, \<open>draws (k + 1)\<close>, ... of the generator, \<open>k\<close> the number of values drawn
  so far.

  The loop over the potential conflicts: a conflict that is not active starts
  when the draw is below the probability; its dict is a new object, and
  \<open>new_trade_wars\<close> gets a copy of that dict.
\<close>

fun conflicts_loop ::
  "(nat \<Rightarrow> real) \<Rightarrow> real \<Rightarrow> int \<Rightarrow> (string \<times> string \<times> real) list
     \<Rightarrow> (string \<times> nat) list \<times> (string \<times> trade_war) list \<times> store \<times> nat
     \<Rightarrow> (string \<times> nat) list \<times> (string \<times> trade_war) list \<times> store \<times> nat" where
  "conflicts_loop draws current simulation_year [] st = st"
| "conflicts_loop draws current simulation_year ((country_a, country_b, base_intensity) # rest)
       (active, new_trade_wars, heap, k) =
     (let conflict_id = country_a @ ''_'' @ country_b;
          reverse_id = country_b @ ''_'' @ country_a
      in if conflict_id \<in> set (map fst active) \<or> reverse_id \<in> set (map fst active)
         then conflicts_loop draws current simulation_year rest (active, new_trade_wars, heap, k)
         else
           let adjusted_probability =
                 (if country_a = ''us'' \<and> country_b = ''china'' then current * 1.5 else current)
           in if draws k < adjusted_probability
              then
                let actual_intensity = base_intensity * (0.8 + 0.4 * draws (k + 1));
                    details = \<lparr> started_year = simulation_year,
                                intensity = actual_intensity,
                                duration_years = py_int (2 + 3 * draws (k + 2)) \<rparr>
                in conflicts_loop draws current simulation_year rest
                     (AList.update conflict_id (length heap) active,
                      AList.update conflict_id details new_trade_wars,
                      heap @ [details], k + 3)
              else conflicts_loop draws current simulation_year rest
                     (active, new_trade_wars, heap, k + 1))"

text \<open>
  The loop over the active trade wars: one that has lasted its duration is noted
  as ended, any other gets a new intensity, written into its dict.
\<close>

fun wars_loop ::
  "(nat \<Rightarrow> real) \<Rightarrow> int \<Rightarrow> (string \<times> nat) list \<Rightarrow> string list \<times> store \<times> nat
     \<Rightarrow> string list \<times> store \<times> nat" where
  "wars_loop draws simulation_year [] st = st"
| "wars_loop draws simulation_year ((conflict_id, address) # rest) (ended_trade_wars, heap, k) =
     (let details = heap ! address;
          years_active = simulation_year - started_year details
      in if years_active \<ge> duration_years details
         then wars_loop draws simulation_year rest (ended_trade_wars @ [conflict_id], heap, k)
         else
           let intensity_change = draws k
           in wars_loop draws simulation_year rest
                (ended_trade_wars,
                 heap[address := details\<lparr> intensity :=
                    max 0.1 (min 0.9 (intensity details + intensity_change)) \<rparr>],
                 k + 1))"

text \<open>The loop over the sectors of \<open>order_diversion\<close>, one draw each.\<close>

fun diversion_loop :: "(nat \<Rightarrow> real) \<Rightarrow> nat \<Rightarrow> (string \<times> real) list \<Rightarrow> (string \<times> real) list" where
  "diversion_loop draws k [] = []"
| "diversion_loop draws k ((sector, potential) # rest) =
     (sector, min 0.9 (potential + 0.02 * draws k)) # diversion_loop draws (Suc k) rest"

text \<open>
  \<open>simulate_trade_wars\<close>. The value is the result, the model, the store and the
  number of values drawn. The weighted opportunity divides by the number of
  sectors.
\<close>

definition simulate_trade_wars ::
  "trade_war_model \<Rightarrow> int \<Rightarrow> int \<Rightarrow> real \<Rightarrow> real \<Rightarrow> (nat \<Rightarrow> real) \<Rightarrow> store \<times> nat
     \<Rightarrow> py_error + (trade_war_result \<times> trade_war_model \<times> store \<times> nat)" where
  "simulate_trade_wars self year_index simulation_year tension_level regional_cooperation
       draws st =
     (case st of (heap0, k0) \<Rightarrow>
      let base_change = tw_annual_change self;
          tension_effect = (tension_level - 0.5) * 0.1;
          probability_change = base_change + tension_effect;
          current = max 0.05 (min 0.8 (tw_current_probability self + probability_change));
          (active1, new_trade_wars, heap1, k1) =
            conflicts_loop draws current simulation_year potential_conflicts
              (tw_active_trade_wars self, [], heap0, k0);
          (ended_trade_wars, heap2, k2) = wars_loop draws simulation_year active1 ([], heap1, k1);
          active2 = filter (\<lambda>(conflict_id, address). conflict_id \<notin> set ended_trade_wars) active1;
          order_diversion = diversion_loop draws k2 (tw_order_diversion self);
          k3 = k2 + length (tw_order_diversion self);
          diversification_change = 0.02 * regional_cooperation - 0.01 * tension_level;
          market_diversification =
            max 0.3 (min 0.9 (tw_market_diversification self + diversification_change));
          sanction_exposure_change = 0.01 * tension_level - 0.02 * market_diversification;
          secondary_sanction_exposure =
            max 0.1 (min 0.7 (tw_secondary_sanction_exposure self + sanction_exposure_change));
          active_wars_intensity =
            (\<Sum>(conflict_id, address) \<leftarrow> active2. intensity (heap2 ! address));
          tariff_escalation = (if active2 \<noteq> [] then 0.1 * active_wars_intensity else 0);
          order_diversion_opportunities =
            map (\<lambda>(sector, potential). (sector, potential * active_wars_intensity * 0.5))
              order_diversion
      in if order_diversion_opportunities = [] then Inl ZeroDivisionError
         else
           let weighted_opportunity =
                 sum_list (map snd order_diversion_opportunities)
                   / of_nat (length order_diversion_opportunities);
               sanction_risk = secondary_sanction_exposure * active_wars_intensity * 0.3;
               opportunity_score = weighted_opportunity * 0.7 - sanction_risk * 0.3;
               vulnerability_score =
                 (1 - market_diversification) * 0.5 + secondary_sanction_exposure * 0.3
                   + tariff_escalation * 0.2;
               res = \<lparr> twr_year_index = year_index,
                       twr_simulation_year = simulation_year,
                       twr_trade_war_probability = current,
                       twr_active_trade_wars = active2,
                       twr_new_trade_wars = new_trade_wars,
                       twr_ended_trade_wars = ended_trade_wars,
                       twr_order_diversion_potential = order_diversion,
                       twr_market_diversification = market_diversification,
                       twr_secondary_sanction_exposure = secondary_sanction_exposure,
                       twr_tariff_escalation = tariff_escalation,
                       twr_order_diversion_opportunities = order_diversion_opportunities,
                       twr_sanction_risk = sanction_risk,
                       twr_opportunity_score = opportunity_score,
                       twr_vulnerability_score = vulnerability_score \<rparr>
           in Inr (res,
                   self\<lparr> tw_current_probability := current,
                         tw_active_trade_wars := active2,
                         tw_order_diversion := order_diversion,
                         tw_market_diversification := market_diversification,
                         tw_secondary_sanction_exposure := secondary_sanction_exposure,
                         tw_historical_impacts :=
                           AList.update year_index res (tw_historical_impacts self) \<rparr>,
                   heap2, k3))"

text \<open>What a reader of a result finds under \<open>'active_trade_wars'\<close>: the dicts the
  addresses lead to, in the store as it is when the result is read.\<close>

definition read_active_trade_wars :: "store \<Rightarrow> trade_war_result \<Rightarrow> (string \<times> trade_war) list" where
  "read_active_trade_wars heap res =
     map (\<lambda>(conflict_id, address). (conflict_id, heap ! address)) (twr_active_trade_wars res)"

text \<open>
  Two years of a model built from the default configuration, called as
  \<open>GeopoliticalModel.simulate_geopolitical_environment\<close> calls it from the engine
  (tension level and regional cooperation 0.5): 2025 and 2026. The values drawn
  start the trade war between the US and China in 2025, with three years to last,
  and no other. The value is what the result of 2025 shows under
  \<open>'active_trade_wars'\<close> when it is returned, and what the same result shows after
  the call for 2026.
\<close>

definition war_draws :: "nat \<Rightarrow> real" where
  "war_draws k =
     (if k = 0 then 0.2 else if k = 1 \<or> k = 2 then 0.5 else if k = 6 then 0.05
      else if k = 15 then 0.1 else 0.9)"

definition two_war_years ::
  "py_error + ((string \<times> trade_war) list \<times> (string \<times> trade_war) list)" where
  "two_war_years =
     (case simulate_trade_wars (TradeWarImpactsModel_init []) 0 2025 0.5 0.5 war_draws ([], 0) of
        Inl e \<Rightarrow> Inl e
      | Inr (result_2025, self1, heap1, k1) \<Rightarrow>
          (case simulate_trade_wars self1 1 2026 0.5 0.5 war_draws (heap1, k1) of
             Inl e \<Rightarrow> Inl e
           | Inr (result_2026, self2, heap2, k2) \<Rightarrow>
               Inr (read_active_trade_wars heap1 result_2025,
                    read_active_trade_wars heap2 result_2025)))"

section \<open>simulation/simulation\_engine.py\<close>

subsection \<open>Model objects and their results\<close>

text \<open>
  The engine treats every model as an object with one entry method that takes
  positional and keyword arguments and returns a dict or raises. For the engine
  the models are therefore arbitrary: a model is its entry method, a function of
  the arguments and of the world \<open>'w\<close> (the state of all model objects and of the
  two seeded random generators) that yields the new world and either the returned
  dict or the text \<open>str(e)\<close> of the exception raised. Keyword arguments are passed as
  one \<open>JObj\<close>. A value a model returns is a number, a string, a dict, or
  \<open>JRef r\<close>: a dict object the model also keeps in its own state, at address \<open>r\<close> of
  the world.
\<close>

datatype jv = JNum real | JStr string | JObj "(string \<times> jv) list" | JRef nat

type_synonym dict = "(string \<times> jv) list"

type_synonym 'w model_fn = "jv list \<Rightarrow> 'w \<Rightarrow> (string + dict) \<times> 'w"

text \<open>The dict display with two unpacked dicts, \<open>{**a, **b}\<close>.\<close>

definition merge :: "dict \<Rightarrow> dict \<Rightarrow> dict" where
  "merge a b = foldl (\<lambda>d (k, v). AList.update k v d) a b"

text \<open>The marker \<open>{'error': str(e)}\<close>.\<close>

definition error_marker :: "string \<Rightarrow> jv" where
  "error_marker msg = JObj [(''error'', JStr msg)]"

text \<open>\<open>str(KeyError(k))\<close> is the key in single quotes.\<close>

definition key_error :: "string \<Rightarrow> string" where
  "key_error k = [CHR 0x27] @ k @ [CHR 0x27]"

text \<open>
  Arithmetic on a value read from a result dict raises \<open>TypeError\<close> unless the
  value is a number, and the format \<open>:.2f\<close> raises on anything but a number. The
  text of these messages names the operand types in Python; it is shortened here.
\<close>

fun as_number :: "jv \<Rightarrow> string + real" where
  "as_number (JNum x) = Inr x"
| "as_number (JStr s) = Inl ''unsupported operand type(s)''"
| "as_number (JObj d) = Inl ''unsupported operand type(s)''"
| "as_number (JRef r) = Inl ''unsupported operand type(s)''"

fun percent_2f :: "jv \<Rightarrow> string + real" where
  "percent_2f (JNum x) = Inr (x * 100)"
| "percent_2f (JStr s) = Inl ''Unknown format code''"
| "percent_2f (JObj d) = Inl ''unsupported operand type(s)''"
| "percent_2f (JRef r) = Inl ''unsupported operand type(s)''"

text \<open>\<open>str(n)\<close> for an integer.\<close>

fun digits :: "nat \<Rightarrow> string" where
  "digits n =
     (if n < 10 then [char_of (48 + n)]
      else digits (n div 10) @ [char_of (48 + n mod 10)])"

declare digits.simps [simp del]

definition str_int :: "int \<Rightarrow> string" where
  "str_int i = (if i < 0 then CHR ''-'' # digits (nat (- i)) else digits (nat i))"

subsection \<open>The engine\<close>

record metadata =
  md_scenario :: string
  md_start_year :: int
  md_end_year :: int
  timestamp :: string

record results =
  metadata :: metadata
  yearly_data :: "(int \<times> dict) list"

text \<open>
  \<open>files\<close> is the results directory: the name of each file written and the
  document \<open>json.dump\<close> was given. \<open>save_intermediate_results\<close> is the one entry of
  the configuration the run reads after construction.
\<close>

record 'w engine =
  start_year :: int
  end_year :: int
  scenario :: string
  current_year :: int
  save_intermediate_results :: bool
  models :: "string \<rightharpoonup> 'w model_fn"
  export_models :: "(string \<times> 'w model_fn) list"
  import_models :: "(string \<times> 'w model_fn) list"
  results :: results
  files :: "(string \<times> results) list"

text \<open>
  \<open>TradeSimulationEngine.__init__\<close>. The constructor seeds both generators from
  \<open>config['random_seed']\<close>, builds the model objects from the configuration and
  reads the clock: the models it built are \<open>ms\<close>, \<open>ems\<close> and \<open>ims\<close>, the string
  \<open>datetime.now().strftime(...)\<close> returned is \<open>now\<close>, and the world the constructor
  leaves (seeded generators, fresh models) is the world \<open>run_simulation\<close> starts in.
\<close>

definition TradeSimulationEngine_init ::
  "bool \<Rightarrow> (string \<rightharpoonup> 'w model_fn) \<Rightarrow> (string \<times> 'w model_fn) list \<Rightarrow> (string \<times> 'w model_fn) list
     \<Rightarrow> int \<Rightarrow> int \<Rightarrow> string \<Rightarrow> string \<Rightarrow> 'w engine" where
  "TradeSimulationEngine_init save_flag ms ems ims start_y end_y scen now =
     \<lparr> start_year = start_y,
       end_year = end_y,
       scenario = scen,
       current_year = start_y,
       save_intermediate_results = save_flag,
       models = ms,
       export_models = ems,
       import_models = ims,
       results = \<lparr> metadata = \<lparr> md_scenario = scen, md_start_year = start_y,
                                md_end_year = end_y, timestamp = now \<rparr>,
                   yearly_data = [] \<rparr>,
       files = [] \<rparr>"

text \<open>\<open>self.models[key].method(*args)\<close>: a missing key raises \<open>KeyError\<close>.\<close>

definition call_model :: "'w engine \<Rightarrow> string \<Rightarrow> jv list \<Rightarrow> 'w \<Rightarrow> (string + dict) \<times> 'w" where
  "call_model self key args w =
     (case models self key of
        None \<Rightarrow> (Inl (key_error key), w)
      | Some m \<Rightarrow> m args w)"

text \<open>
  One \<open>try ... except Exception as e\<close> block of steps 1 to 4: the call, then either
  the result stored under \<open>result_key\<close> and kept in the local variable, or the
  marker stored and the local variable set to \<open>{}\<close>.
\<close>

definition guarded_call ::
  "'w engine \<Rightarrow> string \<Rightarrow> string \<Rightarrow> jv list \<Rightarrow> dict \<Rightarrow> 'w \<Rightarrow> dict \<times> dict \<times> 'w" where
  "guarded_call self model_key result_key args year_results w =
     (case call_model self model_key args w of
        (Inr r, w') \<Rightarrow> (r, AList.update result_key (JObj r) year_results, w')
      | (Inl msg, w') \<Rightarrow> ([], AList.update result_key (error_marker msg) year_results, w'))"

text \<open>What one guarded block leaves in \<open>year_results\<close> and in the local variable,
  by the outcome of the call.\<close>

definition entry_of :: "string + dict \<Rightarrow> jv" where
  "entry_of outcome = (case outcome of Inl msg \<Rightarrow> error_marker msg | Inr r \<Rightarrow> JObj r)"

definition local_of :: "string + dict \<Rightarrow> dict" where
  "local_of outcome = (case outcome of Inl msg \<Rightarrow> [] | Inr r \<Rightarrow> r)"

text \<open>
  One iteration of the loop over the export sectors. The result is stored before
  its \<open>export_volume\<close> is added to the total, and with \<open>verbose\<close> the growth rate is
  formatted after that; an exception at either place replaces the stored result by
  the marker.
\<close>

definition simulate_sector ::
  "bool \<Rightarrow> jv list \<Rightarrow> dict \<times> real \<times> 'w \<Rightarrow> string \<times> 'w model_fn \<Rightarrow> dict \<times> real \<times> 'w" where
  "simulate_sector verbose args acc m =
     (case (acc, m) of ((all_export_results, total_exps, w), (sname, sector_model)) \<Rightarrow>
        (case sector_model args w of
           (Inl msg, w') \<Rightarrow>
             (AList.update sname (error_marker msg) all_export_results, total_exps, w')
         | (Inr sector_result, w') \<Rightarrow>
             let stored = AList.update sname (JObj sector_result) all_export_results
             in (case as_number (dict_get sector_result ''export_volume'' (JNum 0)) of
                   Inl msg \<Rightarrow>
                     (AList.update sname (error_marker msg) stored, total_exps, w')
                 | Inr v \<Rightarrow>
                     (case (if verbose
                            then percent_2f (dict_get sector_result ''growth_rate'' (JNum 0))
                            else Inr 0) of
                        Inl msg \<Rightarrow>
                          (AList.update sname (error_marker msg) stored, total_exps + v, w')
                      | Inr g \<Rightarrow> (stored, total_exps + v, w')))))"

text \<open>One iteration of the loop over the import categories.\<close>

definition simulate_category ::
  "jv list \<Rightarrow> dict \<times> real \<times> 'w \<Rightarrow> string \<times> 'w model_fn \<Rightarrow> dict \<times> real \<times> 'w" where
  "simulate_category args acc m =
     (case (acc, m) of ((all_import_results, total_imps, w), (category_name, category_model)) \<Rightarrow>
        (case category_model args w of
           (Inl msg, w') \<Rightarrow>
             (AList.update category_name (error_marker msg) all_import_results, total_imps, w')
         | (Inr category_result, w') \<Rightarrow>
             let stored = AList.update category_name (JObj category_result) all_import_results
             in (case as_number (dict_get category_result ''import_volume'' (JNum 0)) of
                   Inl msg \<Rightarrow>
                     (AList.update category_name (error_marker msg) stored, total_imps, w')
                 | Inr v \<Rightarrow> (stored, total_imps + v, w'))))"

text \<open>The placeholder arguments of step 3.\<close>

definition bop_estimate_jv :: dict where
  "bop_estimate_jv =
     [(''exports'', JNum 50000), (''imports'', JNum 60000), (''remittances'', JNum 20000),
      (''fdi'', JNum 3000), (''aid_loans'', JNum 1000), (''profit_repatriation'', JNum 1500),
      (''other_outflows'', JNum 500)]"

definition cb_policy_estimate_jv :: dict where
  "cb_policy_estimate_jv =
     [(''intervention_stance'', JNum 0.5), (''reserve_threshold'', JNum 3.5),
      (''interest_rate_differential'', JNum 0.02)]"

text \<open>\<open>sector_inputs\<close> and \<open>category_inputs\<close>, from the results collected so far.\<close>

definition sector_inputs_of :: "dict \<Rightarrow> dict \<Rightarrow> dict \<Rightarrow> dict \<Rightarrow> dict \<Rightarrow> dict \<Rightarrow> dict" where
  "sector_inputs_of global_conditions trade_policy_results exchange_rate_results
       logistics_results compliance_results digital_trade_results =
     [(''global_demand_growth'', dict_get global_conditions ''demand_growth_rate'' (JNum 0.03)),
      (''tariff_changes'', dict_get trade_policy_results ''effective_tariffs'' (JObj [])),
      (''exchange_rate_impact'', dict_get exchange_rate_results ''impact_factor'' (JNum 0)),
      (''logistics_performance'', dict_get logistics_results ''performance_index'' (JNum 0.6)),
      (''trade_policy_impact'', dict_get trade_policy_results ''net_impact'' (JNum 0)),
      (''compliance_impact'', dict_get compliance_results ''net_impact'' (JNum 0)),
      (''digital_adoption'', dict_get digital_trade_results ''overall_adoption_rate'' (JNum 0.5)),
      (''competitor_growth'', dict_get global_conditions ''competitor_growth'' (JObj []))]"

definition category_inputs_of :: "dict \<Rightarrow> dict \<Rightarrow> dict \<Rightarrow> dict \<Rightarrow> dict \<Rightarrow> dict" where
  "category_inputs_of investment_results global_conditions exchange_rate_results
       trade_policy_results logistics_results =
     [(''domestic_production_growth'',
         dict_get investment_results ''domestic_growth_rate'' (JNum 0.05)),
      (''consumption_demand_growth'', dict_get global_conditions ''consumption_growth'' (JNum 0.04)),
      (''exchange_rate_impact'', dict_get exchange_rate_results ''import_impact'' (JNum 0)),
      (''tariff_changes'', dict_get trade_policy_results ''import_tariff_change'' (JNum 0)),
      (''global_price_changes'', dict_get global_conditions ''global_price_changes'' (JObj [])),
      (''logistics_cost'', dict_get logistics_results ''logistics_cost_factor'' (JNum 0.1)),
      (''domestic_capacity_investment'',
         dict_get investment_results ''domestic_investment_level'' (JNum 0.5))]"

text \<open>
  Steps 1 to 4 of \<open>simulate_year\<close>: the ten guarded calls of the macro models, in
  the order of the code. The value holds the local variables steps 5 and 6 read
  (\<open>lv_\<close> and the name of the variable), \<open>year_results\<close> and the world.
\<close>

record 'w locals =
  lv_global_conditions :: dict
  lv_investment_results :: dict
  lv_trade_policy_results :: dict
  lv_logistics_results :: dict
  lv_exchange_rate_results :: dict
  lv_compliance_results :: dict
  lv_digital_trade_results :: dict
  lv_year_results :: dict
  lv_world :: 'w

definition simulate_macro_models :: "'w engine \<Rightarrow> int \<Rightarrow> 'w \<Rightarrow> 'w locals" where
  "simulate_macro_models self year w0 =
     (let year_index = JNum (of_int (year - start_year self));
          y = JNum (of_int year);
          (global_conditions, yr1, w1) =
            guarded_call self ''global_market'' ''global_market''
              [year_index, y, JStr (scenario self)] [] w0;
          (geopolitical_conditions, yr2, w2) =
            guarded_call self ''geopolitical'' ''geopolitical'' [year_index, y] yr1 w1;
          (investment_results, yr3, w3) =
            guarded_call self ''investment'' ''investment''
              [y, JObj (merge global_conditions geopolitical_conditions)] yr2 w2;
          (trade_policy_results, yr4, w4) =
            guarded_call self ''trade_policy'' ''trade_policy'' [year_index, y] yr3 w3;
          (logistics_results, yr5, w5) =
            guarded_call self ''logistics'' ''logistics''
              [year_index, y, JNum 100000, JNum 0.5, JNum 0.6] yr4 w4;
          (exchange_rate_results, yr6, w6) =
            guarded_call self ''exchange_rate'' ''exchange_rate''
              [year_index, JObj bop_estimate_jv, JObj cb_policy_estimate_jv,
               JObj global_conditions] yr5 w5;
          (compliance_results, yr7, w7) =
            guarded_call self ''compliance'' ''compliance''
              [year_index, y, JNum 0.6, JNum 0.7] yr6 w6;
          (structural_transformation_results, yr8, w8) =
            guarded_call self ''structural'' ''structural_transformation'' [y] yr7 w7;
          (digital_trade_results, yr9, w9) =
            guarded_call self ''digital_trade'' ''digital_trade''
              [y, JObj global_conditions] yr8 w8;
          (services_trade_results, yr10, w10) =
            guarded_call self ''services_trade'' ''services_trade''
              [y, JObj global_conditions] yr9 w9
      in \<lparr> lv_global_conditions = global_conditions,
           lv_investment_results = investment_results,
           lv_trade_policy_results = trade_policy_results,
           lv_logistics_results = logistics_results,
           lv_exchange_rate_results = exchange_rate_results,
           lv_compliance_results = compliance_results,
           lv_digital_trade_results = digital_trade_results,
           lv_year_results = yr10,
           lv_world = w10 \<rparr>)"

text \<open>
  Step 5: the loops over the export sectors and the import categories, each
  iteration guarded, and the two summaries. (\<open>trade_environment\<close> is built from the
  results and never read; it is left out.) The value is \<open>year_results\<close> up to the
  key \<open>'import'\<close>, the two totals and the world.
\<close>

definition simulate_sectors ::
  "'w engine \<Rightarrow> int \<Rightarrow> bool \<Rightarrow> 'w locals \<Rightarrow> dict \<times> real \<times> real \<times> 'w" where
  "simulate_sectors self year verbose lv =
     (let year_index = JNum (of_int (year - start_year self));
          sector_inputs =
            sector_inputs_of (lv_global_conditions lv) (lv_trade_policy_results lv)
              (lv_exchange_rate_results lv) (lv_logistics_results lv)
              (lv_compliance_results lv) (lv_digital_trade_results lv);
          (all_export_results, total_exps, w11) =
            foldl (simulate_sector verbose [year_index, JObj sector_inputs])
              ([], 0, lv_world lv) (export_models self);
          yr11 = AList.update ''export''
                   (JObj [(''total_exports'', JNum total_exps),
                          (''sector_details'', JObj all_export_results)]) (lv_year_results lv);
          category_inputs =
            category_inputs_of (lv_investment_results lv) (lv_global_conditions lv)
              (lv_exchange_rate_results lv) (lv_trade_policy_results lv)
              (lv_logistics_results lv);
          (all_import_results, total_imps, w12) =
            foldl (simulate_category [year_index, JObj category_inputs])
              ([], 0, w11) (import_models self);
          yr12 = AList.update ''import''
                   (JObj [(''total_imports'', JNum total_imps),
                          (''category_details'', JObj all_import_results)]) yr11
      in (yr12, total_exps, total_imps, w12))"

text \<open>
  Step 6, which no \<open>try\<close> guards: \<open>gdp\<close> is read from the investment result
  (1 when the key is missing, as after a failed investment call) and divides the
  totals.
\<close>

definition aggregate_metrics :: "dict \<Rightarrow> real \<Rightarrow> real \<Rightarrow> string + jv" where
  "aggregate_metrics investment_results total_exps total_imps =
     (case as_number (dict_get investment_results ''gdp'' (JNum 1)) of
        Inl msg \<Rightarrow> Inl msg
      | Inr gdp \<Rightarrow>
          if gdp = 0 then Inl ''division by zero''
          else Inr (JObj [(''trade_balance'', JNum (total_exps - total_imps)),
                          (''trade_openness'', JNum ((total_exps + total_imps) / gdp)),
                          (''export_to_gdp'', JNum (total_exps / gdp)),
                          (''import_to_gdp'', JNum (total_imps / gdp))]))"

definition TradeSimulationEngine_simulate_year ::
  "'w engine \<Rightarrow> int \<Rightarrow> bool \<Rightarrow> 'w \<Rightarrow> (string + dict) \<times> 'w" where
  "TradeSimulationEngine_simulate_year self year verbose w =
     (let lv = simulate_macro_models self year w
      in case simulate_sectors self year verbose lv of
           (year_results, total_exps, total_imps, w') \<Rightarrow>
             (case aggregate_metrics (lv_investment_results lv) total_exps total_imps of
                Inl msg \<Rightarrow> (Inl msg, w')
              | Inr metrics_entry \<Rightarrow>
                  (Inr (AList.update ''aggregate_metrics'' metrics_entry year_results), w')))"

text \<open>\<open>save_results\<close>: the document handed to \<open>json.dump\<close> is \<open>self.results\<close>.\<close>

definition save_results :: "'w engine \<Rightarrow> string option \<Rightarrow> 'w engine" where
  "save_results self filename =
     (let name = (case filename of
                    None \<Rightarrow> ''simulation_results_'' @ scenario self
                  | Some f \<Rightarrow> f)
      in self\<lparr> files := AList.update (name @ ''.json'') (results self) (files self) \<rparr>)"

text \<open>
  \<open>run_simulation\<close>: the loop over \<open>range(start_year, end_year + 1)\<close>. An exception
  that leaves \<open>simulate_year\<close> ends the run.
\<close>

fun run_years :: "'w engine \<Rightarrow> bool \<Rightarrow> int list \<Rightarrow> 'w \<Rightarrow> (string + 'w engine) \<times> 'w" where
  "run_years self verbose [] w = (Inr self, w)"
| "run_years self verbose (year # years) w =
     (let self1 = self\<lparr> current_year := year \<rparr>
      in case TradeSimulationEngine_simulate_year self1 year verbose w of
           (Inl msg, w') \<Rightarrow> (Inl msg, w')
         | (Inr year_results, w') \<Rightarrow>
             let self2 = self1\<lparr> results := (results self1)
                           \<lparr> yearly_data :=
                               AList.update year year_results (yearly_data (results self1)) \<rparr> \<rparr>;
                 self3 = (if year mod 5 = 0 \<and> save_intermediate_results self2
                          then save_results self2
                                 (Some (''intermediate_'' @ scenario self2 @ ''_'' @ str_int year))
                          else self2)
             in run_years self3 verbose years w')"

definition run_simulation :: "'w engine \<Rightarrow> bool \<Rightarrow> 'w \<Rightarrow> (string + 'w engine) \<times> 'w" where
  "run_simulation self verbose w = run_years self verbose [start_year self..end_year self] w"

subsection \<open>Names used in the statements about the engine\<close>

text \<open>The ten guarded calls of steps 1 to 4: the key in \<open>self.models\<close> and the key
  in \<open>year_results\<close>.\<close>

definition macro_calls :: "(string \<times> string) list" where
  "macro_calls =
     [(''global_market'', ''global_market''), (''geopolitical'', ''geopolitical''),
      (''investment'', ''investment''), (''trade_policy'', ''trade_policy''),
      (''logistics'', ''logistics''), (''exchange_rate'', ''exchange_rate''),
      (''compliance'', ''compliance''), (''structural'', ''structural_transformation''),
      (''digital_trade'', ''digital_trade''), (''services_trade'', ''services_trade'')]"

text \<open>The keys of a complete year record, in the order they are written.\<close>

definition year_record_keys :: "string list" where
  "year_record_keys = map snd macro_calls @ [''export'', ''import'', ''aggregate_metrics'']"

text \<open>Step 6 divides by \<open>gdp\<close>: the division succeeds on an investment result
  without the key or with a nonzero number under it.\<close>

fun nonzero_number :: "jv \<Rightarrow> bool" where
  "nonzero_number (JNum g) = (g \<noteq> 0)"
| "nonzero_number (JStr s) = False"
| "nonzero_number (JObj d) = False"
| "nonzero_number (JRef r) = False"

definition gdp_ok :: "dict \<Rightarrow> bool" where
  "gdp_ok r = nonzero_number (dict_get r ''gdp'' (JNum 1))"

text \<open>An investment model whose results always pass step 6.\<close>

definition investment_safe :: "(string \<rightharpoonup> 'w model_fn) \<Rightarrow> bool" where
  "investment_safe ms =
     (case ms ''investment'' of
        None \<Rightarrow> True
      | Some m \<Rightarrow> (\<forall>args w. case fst (m args w) of Inl msg \<Rightarrow> True | Inr r \<Rightarrow> gdp_ok r))"

text \<open>
  An engine for the examples. Its world is the number of model calls made so far.
  The global market model and one sector and one category raise, the investment
  model and one sector return; every other model is missing from \<open>self.models\<close>, as
  after a constructor that raised.
\<close>

definition raising :: "string \<Rightarrow> nat model_fn" where
  "raising msg args w = (Inl msg, Suc w)"

definition returning :: "dict \<Rightarrow> nat model_fn" where
  "returning r args w = (Inr r, Suc w)"

definition faulty_engine :: "nat engine" where
  "faulty_engine =
     TradeSimulationEngine_init False
       [''global_market'' \<mapsto> raising ''boom'',
        ''investment'' \<mapsto> returning [(''gdp'', JNum 350)]]
       [(''rmg'', raising ''bad sector''),
        (''jute'', returning [(''export_volume'', JNum 1200), (''growth_rate'', JNum 0.02)])]
       [(''fuel'', raising ''bad category'')]
       2025 2027 ''baseline'' ''2026-01-01 00:00:00''"



text \<open>
  What one iteration of the loop over the export sectors leaves under the name of
  the sector, by the outcome of the call: the marker when the call raised, and
  also when adding the volume to the total or formatting the growth rate raised;
  otherwise the result. The same for an import category.
\<close>

definition sector_entry_of :: "bool \<Rightarrow> string + dict \<Rightarrow> jv" where
  "sector_entry_of verbose outcome =
     (case outcome of
        Inl msg \<Rightarrow> error_marker msg
      | Inr r \<Rightarrow>
          (case as_number (dict_get r ''export_volume'' (JNum 0)) of
             Inl msg \<Rightarrow> error_marker msg
           | Inr v \<Rightarrow>
               (case (if verbose then percent_2f (dict_get r ''growth_rate'' (JNum 0))
                      else Inr 0) of
                  Inl msg \<Rightarrow> error_marker msg
                | Inr g \<Rightarrow> JObj r)))"

definition category_entry_of :: "string + dict \<Rightarrow> jv" where
  "category_entry_of outcome =
     (case outcome of
        Inl msg \<Rightarrow> error_marker msg
      | Inr r \<Rightarrow>
          (case as_number (dict_get r ''import_volume'' (JNum 0)) of
             Inl msg \<Rightarrow> error_marker msg
           | Inr v \<Rightarrow> JObj r))"

text \<open>
  A complete year record. It has all thirteen keys, in the order of the code.
  Under the key of each macro model stands what a call of that model left: the
  marker with the message if the call raised, the result if it returned
  (\<open>entry_of\<close>). Under \<open>'export'\<close> and \<open>'import'\<close> stand the summaries, whose details
  have one entry for every sector and every category, each what a call of that
  model left.
\<close>

definition details_complete ::
  "(string + dict \<Rightarrow> jv) \<Rightarrow> (string \<times> 'w model_fn) list \<Rightarrow> dict \<Rightarrow> bool" where
  "details_complete entry ms details =
     (map fst details = map fst ms
      \<and> (\<forall>(name, m) \<in> set ms. \<exists>args w.
            map_of details name = Some (entry (fst (m args w)))))"

definition record_complete :: "'w engine \<Rightarrow> bool \<Rightarrow> dict \<Rightarrow> bool" where
  "record_complete self verbose yr =
     (map fst yr = year_record_keys
      \<and> (\<forall>(mk, rk) \<in> set macro_calls. \<exists>args w.
            map_of yr rk = Some (entry_of (fst (call_model self mk args w))))
      \<and> (\<exists>total_exps details.
            map_of yr ''export''
              = Some (JObj [(''total_exports'', JNum total_exps),
                            (''sector_details'', JObj details)])
            \<and> details_complete (sector_entry_of verbose) (export_models self) details)
      \<and> (\<exists>total_imps details.
            map_of yr ''import''
              = Some (JObj [(''total_imports'', JNum total_imps),
                            (''category_details'', JObj details)])
            \<and> details_complete category_entry_of (import_models self) details))"

text \<open>The same results and the same engine with another clock reading in the
  metadata.\<close>

definition retime :: "string \<Rightarrow> results \<Rightarrow> results" where
  "retime now r = r\<lparr> metadata := (metadata r)\<lparr> timestamp := now \<rparr> \<rparr>"


section \<open>Properties of the export sector model\<close>

text \<open>
  C8. In every call of \<open>ExportSectorModel.simulate_year\<close> the new competitiveness is
  the previous one plus 0.1 times the weighted sum
  \<open>0.2 * exchange_rate_impact + 0.3 * (logistics_performance - 0.6) +
  0.2 * trade_policy_impact + 0.1 * digital_adoption - 0.2 * compliance_impact\<close>,
  clamped to the interval from 0.1 to 1.0; it is the value returned and the value
  stored in the history, and it lies in that interval for all inputs.
\<close>

theorem simulate_year_competitiveness_clamped:
  fixes self :: "'a export_sector_scheme" and year_index :: int
    and inp :: sector_inputs and noise :: real
  defines "res \<equiv> ExportSectorModel_simulate_year self year_index inp noise"
  shows "competitiveness (fst res) =
           max 0.1 (min 1.0 (prev_competitiveness self year_index
             + 0.1 * (0.2 * exchange_rate_impact inp
                      + 0.3 * (logistics_performance inp - 0.6)
                      + 0.2 * trade_policy_impact inp
                      + 0.1 * digital_adoption inp
                      - 0.2 * compliance_impact inp)))
         \<and> historical_competitiveness (snd res) year_index = Some (competitiveness (fst res))
         \<and> 0.1 \<le> competitiveness (fst res) \<and> competitiveness (fst res) \<le> 1.0"
proof -
  have c: "competitiveness (fst res) = new_competitiveness self year_index inp"
    by (simp add: res_def ExportSectorModel_simulate_year_def)
  have h: "historical_competitiveness (snd res) year_index
             = Some (new_competitiveness self year_index inp)"
    by (simp add: res_def ExportSectorModel_simulate_year_def)
  have f: "competitiveness_change inp * 0.1 =
             0.1 * (0.2 * exchange_rate_impact inp
                      + 0.3 * (logistics_performance inp - 0.6)
                      + 0.2 * trade_policy_impact inp
                      + 0.1 * digital_adoption inp
                      - 0.2 * compliance_impact inp)"
    by (simp add: competitiveness_change_def algebra_simps)
  have lo: "0.1 \<le> new_competitiveness self year_index inp"
    by (simp add: new_competitiveness_def)
  have hi: "new_competitiveness self year_index inp \<le> 1.0"
    by (simp add: new_competitiveness_def)
  have e: "new_competitiveness self year_index inp =
             max 0.1 (min 1.0 (prev_competitiveness self year_index
               + 0.1 * (0.2 * exchange_rate_impact inp
                        + 0.3 * (logistics_performance inp - 0.6)
                        + 0.2 * trade_policy_impact inp
                        + 0.1 * digital_adoption inp
                        - 0.2 * compliance_impact inp)))"
    unfolding new_competitiveness_def f by (rule refl)
  show ?thesis
    unfolding c h using e lo hi by blast
qed

text \<open>
  C1. A call of \<open>ExportSectorModel.simulate_year\<close> with global demand growth 0.03,
  no tariff changes, no competitor growth, drivers that leave the competitiveness
  where it is (exchange rate, trade policy, digital adoption and compliance impact
  0, logistics performance 0.6) and the noise term 0, on a model whose previous
  competitiveness lies between 0.1 and 1.0, returns the previous volume times
  \<open>1 + base_growth_rate\<close>: the effective growth rate is \<open>base_growth_rate\<close>.
\<close>

theorem simulate_year_neutral_growth:
  fixes self :: "'a export_sector_scheme"
  assumes "0.1 \<le> prev_competitiveness self year_index"
    and "prev_competitiveness self year_index \<le> 1.0"
    and "global_demand_growth inp = 0.03"
    and "tariff_changes inp = []"
    and "competitor_growth inp = []"
    and "exchange_rate_impact inp = 0"
    and "logistics_performance inp = 0.6"
    and "trade_policy_impact inp = 0"
    and "digital_adoption inp = 0"
    and "compliance_impact inp = 0"
  shows "export_volume (fst (ExportSectorModel_simulate_year self year_index inp 0))
           = prev_volume self year_index * (1 + base_growth_rate self)
         \<and> growth_rate (fst (ExportSectorModel_simulate_year self year_index inp 0))
           = base_growth_rate self"
proof -
  have cc: "competitiveness_change inp = 0"
    using assms by (simp add: competitiveness_change_def)
  have nc: "new_competitiveness self year_index inp = prev_competitiveness self year_index"
    using assms(1,2) by (simp add: new_competitiveness_def cc)
  have ag: "adjusted_growth self inp = base_growth_rate self"
    using assms(3) by (simp add: adjusted_growth_def)
  have ti: "weighted_tariff_impact self inp = 0"
    using assms(4) by (simp add: weighted_tariff_impact_def)
  have ci: "competitor_impact_of self inp = 0"
    using assms(5) by (simp add: competitor_impact_of_def)
  have g: "effective_growth_rate self year_index inp 0 = base_growth_rate self"
    by (simp add: effective_growth_rate_def nc ag ti ci)
  show ?thesis
    by (simp add: ExportSectorModel_simulate_year_def new_volume_def g)
qed

lemma rmg_base_prev:
  "prev_competitiveness rmg_base 1 = 0.7" "prev_volume rmg_base 1 = 38000"
  by (simp_all add: rmg_base_def ExportSectorModel_init_def prev_competitiveness_def
      prev_volume_def hist_get_def calculate_overall_competitiveness_def)

theorem simulate_year_neutral_growth_witness:
  "0.1 \<le> prev_competitiveness rmg_base 1 \<and> prev_competitiveness rmg_base 1 \<le> 1.0
   \<and> export_volume (fst (ExportSectorModel_simulate_year rmg_base 1 neutral_inputs 0)) = 40280
   \<and> growth_rate (fst (ExportSectorModel_simulate_year rmg_base 1 neutral_inputs 0)) = 0.06"
  using simulate_year_neutral_growth [of rmg_base 1 neutral_inputs]
  by (simp add: rmg_base_prev) (simp add: neutral_inputs_def rmg_base_def ExportSectorModel_init_def)

text \<open>
  The specialised models. Each of them returns \<open>Inr\<close> on keyword arguments the base
  method accepts, stores the volume of the base model and returns that volume times
  its own factor.
\<close>

lemma rmg_step:
  assumes "extra_kwargs kw = []" and "compliance_cost_structure self \<noteq> []"
  shows "\<exists>res self'. RMGSectorModel_simulate_year self yi kw noise = Inr (res, self')
     \<and> historical_volumes self' yi = Some (new_volume self yi (base_inputs kw) noise)
     \<and> export_volume res = new_volume self yi (base_inputs kw) noise * rmg_multiplier self'
     \<and> prev_volume self' (yi + 1) = new_volume self yi (base_inputs kw) noise"
  using assms
  by (simp add: RMGSectorModel_simulate_year_def ExportSectorModel_simulate_year_def
      sector_result.extend_def prev_volume_def hist_get_def Let_def)

lemma emerging_step:
  assumes "extra_kwargs kw = []"
  shows "\<exists>res self'.
       EmergingSectorModel_simulate_year self yi kw noise new_patents = Inr (res, self')
     \<and> historical_volumes self' yi = Some (new_volume self yi (base_inputs kw) noise)
     \<and> export_volume res = new_volume self yi (base_inputs kw) noise * premium_factor self'
     \<and> prev_volume self' (yi + 1) = new_volume self yi (base_inputs kw) noise"
  using assms
  by (simp add: EmergingSectorModel_simulate_year_def ExportSectorModel_simulate_year_def
      sector_result.extend_def prev_volume_def hist_get_def emerging_update_def Let_def)

lemma traditional_step:
  assumes "extra_kwargs kw = []"
  shows "\<exists>res self'.
       TraditionalSectorModel_simulate_year self yi kw noise nd se = Inr (res, self')
     \<and> historical_volumes self' yi = Some (new_volume self yi (base_inputs kw) noise)
     \<and> export_volume res = new_volume self yi (base_inputs kw) noise
           * traditional_multiplier self' kw nd se
     \<and> prev_volume self' (yi + 1) = new_volume self yi (base_inputs kw) noise"
  using assms
  by (simp add: TraditionalSectorModel_simulate_year_def ExportSectorModel_simulate_year_def
      sector_result.extend_def prev_volume_def hist_get_def traditional_update_def Let_def)

lemma adjusted_differs:
  fixes v m :: real
  assumes "m \<noteq> 1" and "v \<noteq> 0"
  shows "v * m \<noteq> v"
  using assms by simp

lemma rmg_init_structure:
  "compliance_cost_structure (RMGSectorModel_init config) \<noteq> []"
  by (simp add: RMGSectorModel_init_def export_sector.extend_def rmg_sector.fields_def)

lemma neutral_kwargs_extra: "extra_kwargs neutral_kwargs = []"
  by (simp add: neutral_kwargs_def sector_inputs.extend_def sector_kwargs.fields_def)

lemma rmg_run_value:
  "rmg_run = Inr (r, s) \<Longrightarrow> rmg_multiplier s = 0.96 \<and> export_volume r = 38668.8
     \<and> historical_volumes s 1 = Some 40280"
  by (auto simp add: rmg_run_def RMGSectorModel_simulate_year_def RMGSectorModel_init_def
      neutral_kwargs_def sector_inputs.extend_def sector_kwargs.fields_def
      export_sector.extend_def rmg_sector.fields_def super_init_def ExportSectorModel_init_def
      ExportSectorModel_simulate_year_def rmg_multiplier_def compliance_cost_impact_def
      sector_result.extend_def rmg_result.fields_def new_volume_def prev_volume_def hist_get_def
      rmg_config_def Let_def base_inputs_def sector_inputs.truncate_def neutral_inputs_def
      effective_growth_rate_def adjusted_growth_def weighted_tariff_impact_def
      new_competitiveness_def prev_competitiveness_def competitiveness_change_def
      calculate_overall_competitiveness_def competitor_impact_of_def)

text \<open>
  C9 as stated fails where the base volume is zero: a garment sector configured
  with \<open>current_volume = 0\<close> has the factor 0.96, and the volume it returns for year
  index 1 equals the volume it recorded (both are 0).
\<close>

theorem returned_volume_equals_recorded_at_zero:
  "\<not> isl rmg_zero_run
   \<and> rmg_multiplier (snd (projr rmg_zero_run)) \<noteq> 1
   \<and> Some (export_volume (fst (projr rmg_zero_run)))
       = historical_volumes (snd (projr rmg_zero_run)) 1"
  by (simp add: rmg_zero_run_def RMGSectorModel_simulate_year_def RMGSectorModel_init_def
      neutral_kwargs_def sector_inputs.extend_def sector_kwargs.fields_def
      export_sector.extend_def rmg_sector.fields_def super_init_def ExportSectorModel_init_def
      ExportSectorModel_simulate_year_def rmg_multiplier_def compliance_cost_impact_def
      sector_result.extend_def rmg_result.fields_def new_volume_def prev_volume_def hist_get_def
      rmg_config_def Let_def)

text \<open>
  C9, amended. For \<open>RMGSectorModel\<close>, \<open>EmergingSectorModel\<close> and
  \<open>TraditionalSectorModel\<close>, \<open>simulate_year\<close> stores the volume of the base model in
  \<open>historical_volumes[year_index]\<close> and returns that volume times the sector's factor;
  the next year's previous-volume lookup reads the stored, unadjusted volume, so the
  factor does not compound; and whenever the factor differs from 1 and the base
  volume is not zero, the returned volume differs from the recorded one.
\<close>

theorem specialised_models_record_unadjusted_volume:
  assumes "extra_kwargs kw = []"
  shows "(compliance_cost_structure rmg \<noteq> [] \<longrightarrow>
          (\<exists>res rmg'. RMGSectorModel_simulate_year rmg yi kw noise = Inr (res, rmg')
             \<and> historical_volumes rmg' yi = Some (new_volume rmg yi (base_inputs kw) noise)
             \<and> export_volume res = new_volume rmg yi (base_inputs kw) noise * rmg_multiplier rmg'
             \<and> prev_volume rmg' (yi + 1) = new_volume rmg yi (base_inputs kw) noise
             \<and> (rmg_multiplier rmg' \<noteq> 1 \<and> new_volume rmg yi (base_inputs kw) noise \<noteq> 0
                  \<longrightarrow> Some (export_volume res) \<noteq> historical_volumes rmg' yi)))
       \<and> (\<exists>res em'. EmergingSectorModel_simulate_year em yi kw noise new_patents = Inr (res, em')
             \<and> historical_volumes em' yi = Some (new_volume em yi (base_inputs kw) noise)
             \<and> export_volume res = new_volume em yi (base_inputs kw) noise * premium_factor em'
             \<and> prev_volume em' (yi + 1) = new_volume em yi (base_inputs kw) noise
             \<and> (premium_factor em' \<noteq> 1 \<and> new_volume em yi (base_inputs kw) noise \<noteq> 0
                  \<longrightarrow> Some (export_volume res) \<noteq> historical_volumes em' yi))
       \<and> (\<exists>res tr'. TraditionalSectorModel_simulate_year tr yi kw noise normal_draw seasonal
                        = Inr (res, tr')
             \<and> historical_volumes tr' yi = Some (new_volume tr yi (base_inputs kw) noise)
             \<and> export_volume res = new_volume tr yi (base_inputs kw) noise
                  * traditional_multiplier tr' kw normal_draw seasonal
             \<and> prev_volume tr' (yi + 1) = new_volume tr yi (base_inputs kw) noise
             \<and> (traditional_multiplier tr' kw normal_draw seasonal \<noteq> 1
                    \<and> new_volume tr yi (base_inputs kw) noise \<noteq> 0
                  \<longrightarrow> Some (export_volume res) \<noteq> historical_volumes tr' yi))"
proof (intro conjI impI)
  assume c: "compliance_cost_structure rmg \<noteq> []"
  from rmg_step [OF assms c, of yi noise] obtain res rmg' where
    r: "RMGSectorModel_simulate_year rmg yi kw noise = Inr (res, rmg')"
       "historical_volumes rmg' yi = Some (new_volume rmg yi (base_inputs kw) noise)"
       "export_volume res = new_volume rmg yi (base_inputs kw) noise * rmg_multiplier rmg'"
       "prev_volume rmg' (yi + 1) = new_volume rmg yi (base_inputs kw) noise"
    by blast
  have "Some (export_volume res) \<noteq> historical_volumes rmg' yi"
    if "rmg_multiplier rmg' \<noteq> 1 \<and> new_volume rmg yi (base_inputs kw) noise \<noteq> 0"
    using that adjusted_differs r(2,3) by simp
  with r show "\<exists>res rmg'. RMGSectorModel_simulate_year rmg yi kw noise = Inr (res, rmg')
             \<and> historical_volumes rmg' yi = Some (new_volume rmg yi (base_inputs kw) noise)
             \<and> export_volume res = new_volume rmg yi (base_inputs kw) noise * rmg_multiplier rmg'
             \<and> prev_volume rmg' (yi + 1) = new_volume rmg yi (base_inputs kw) noise
             \<and> (rmg_multiplier rmg' \<noteq> 1 \<and> new_volume rmg yi (base_inputs kw) noise \<noteq> 0
                  \<longrightarrow> Some (export_volume res) \<noteq> historical_volumes rmg' yi)"
    by blast
next
  from emerging_step [OF assms, of em yi noise new_patents] obtain res em' where
    r: "EmergingSectorModel_simulate_year em yi kw noise new_patents = Inr (res, em')"
       "historical_volumes em' yi = Some (new_volume em yi (base_inputs kw) noise)"
       "export_volume res = new_volume em yi (base_inputs kw) noise * premium_factor em'"
       "prev_volume em' (yi + 1) = new_volume em yi (base_inputs kw) noise"
    by blast
  have "Some (export_volume res) \<noteq> historical_volumes em' yi"
    if "premium_factor em' \<noteq> 1 \<and> new_volume em yi (base_inputs kw) noise \<noteq> 0"
    using that adjusted_differs r(2,3) by simp
  with r show "\<exists>res em'.
               EmergingSectorModel_simulate_year em yi kw noise new_patents = Inr (res, em')
             \<and> historical_volumes em' yi = Some (new_volume em yi (base_inputs kw) noise)
             \<and> export_volume res = new_volume em yi (base_inputs kw) noise * premium_factor em'
             \<and> prev_volume em' (yi + 1) = new_volume em yi (base_inputs kw) noise
             \<and> (premium_factor em' \<noteq> 1 \<and> new_volume em yi (base_inputs kw) noise \<noteq> 0
                  \<longrightarrow> Some (export_volume res) \<noteq> historical_volumes em' yi)"
    by blast
next
  from traditional_step [OF assms, of tr yi noise normal_draw seasonal] obtain res tr' where
    r: "TraditionalSectorModel_simulate_year tr yi kw noise normal_draw seasonal = Inr (res, tr')"
       "historical_volumes tr' yi = Some (new_volume tr yi (base_inputs kw) noise)"
       "export_volume res = new_volume tr yi (base_inputs kw) noise
           * traditional_multiplier tr' kw normal_draw seasonal"
       "prev_volume tr' (yi + 1) = new_volume tr yi (base_inputs kw) noise"
    by blast
  have "Some (export_volume res) \<noteq> historical_volumes tr' yi"
    if "traditional_multiplier tr' kw normal_draw seasonal \<noteq> 1
          \<and> new_volume tr yi (base_inputs kw) noise \<noteq> 0"
    using that adjusted_differs r(2,3) by simp
  with r show "\<exists>res tr'. TraditionalSectorModel_simulate_year tr yi kw noise normal_draw seasonal
                        = Inr (res, tr')
             \<and> historical_volumes tr' yi = Some (new_volume tr yi (base_inputs kw) noise)
             \<and> export_volume res = new_volume tr yi (base_inputs kw) noise
                  * traditional_multiplier tr' kw normal_draw seasonal
             \<and> prev_volume tr' (yi + 1) = new_volume tr yi (base_inputs kw) noise
             \<and> (traditional_multiplier tr' kw normal_draw seasonal \<noteq> 1
                    \<and> new_volume tr yi (base_inputs kw) noise \<noteq> 0
                  \<longrightarrow> Some (export_volume res) \<noteq> historical_volumes tr' yi)"
    by blast
qed

theorem specialised_models_record_unadjusted_volume_witness:
  "extra_kwargs neutral_kwargs = []
   \<and> \<not> isl rmg_run
   \<and> rmg_multiplier (snd (projr rmg_run)) = 0.96
   \<and> export_volume (fst (projr rmg_run)) = 38668.8
   \<and> historical_volumes (snd (projr rmg_run)) 1 = Some 40280
   \<and> prev_volume (snd (projr rmg_run)) 2 = 40280
   \<and> Some (export_volume (fst (projr rmg_run))) \<noteq> historical_volumes (snd (projr rmg_run)) 1"
proof -
  from specialised_models_record_unadjusted_volume [OF neutral_kwargs_extra,
      where rmg = "RMGSectorModel_init (rmg_config 38000)" and yi = 1 and noise = 0]
    rmg_init_structure [of "rmg_config 38000"]
  obtain res rmg' where
    r: "rmg_run = Inr (res, rmg')"
    and p: "prev_volume rmg' (1 + 1)
              = new_volume (RMGSectorModel_init (rmg_config 38000)) 1 (base_inputs neutral_kwargs) 0"
    and h: "historical_volumes rmg' 1
              = Some (new_volume (RMGSectorModel_init (rmg_config 38000)) 1
                        (base_inputs neutral_kwargs) 0)"
    unfolding rmg_run_def by blast
  from rmg_run_value [OF r] h p show ?thesis
    by (simp add: r neutral_kwargs_extra)
qed

section \<open>Properties of the structural transformation model\<close>

lemma hhi_loop_total:
  "tot \<noteq> 0 \<Longrightarrow>
     \<exists>sh. hhi_loop tot vs h s = Inr (h + (\<Sum>(sector, v) \<leftarrow> vs. (v / tot) ^ 2), sh)"
proof (induction vs arbitrary: h s)
  case Nil
  then show ?case by simp
next
  case (Cons p vs)
  obtain sector v where p: "p = (sector, v)" by (cases p)
  from Cons.IH [OF Cons.prems, of "h + (v / tot) ^ 2" "AList.update sector (v / tot) s"]
  obtain sh where "hhi_loop tot vs (h + (v / tot) ^ 2) (AList.update sector (v / tot) s)
      = Inr (h + (v / tot) ^ 2 + (\<Sum>(sector, v) \<leftarrow> vs. (v / tot) ^ 2), sh)"
    by blast
  then show ?case using Cons.prems by (simp add: p Let_def add.assoc)
qed

lemma hhi_loop_zero:
  "vs \<noteq> [] \<Longrightarrow> hhi_loop 0 vs h s = Inl ZeroDivisionError"
  by (cases vs) auto

lemma export_values_rescale:
  "export_values (rescale k self) = map (\<lambda>(sector, v). (sector, v * k)) (export_values self)"
  by (simp add: export_values_def rescale_def case_prod_unfold comp_def)

lemma total_exports_rescale: "total_exports (rescale k self) = total_exports self * k"
proof -
  have "sum_list (map snd (map (\<lambda>(sector, v). (sector, v * k)) vs)) = sum_list (map snd vs) * k"
    for vs :: "(string \<times> real) list"
    by (induction vs) (auto simp: algebra_simps)
  then show ?thesis by (simp add: total_exports_def export_values_rescale)
qed

lemma shares_rescale:
  fixes k t :: real
  assumes "k \<noteq> 0"
  shows "(\<Sum>(sector, v) \<leftarrow> map (\<lambda>(sector, v). (sector, v * k)) vs. (v / (t * k)) ^ 2)
       = (\<Sum>(sector, v) \<leftarrow> vs. (v / t) ^ 2)"
proof -
  have c: "v * k / (t * k) = v / t" for v
    using assms by simp
  show ?thesis
    by (induction vs) (simp_all add: case_prod_unfold c)
qed

text \<open>
  Over the reals, the HHI is the sum over the sectors of \<open>(value / total)\<^sup>2\<close>, and
  it does not change when every sector's export value is multiplied by the same
  positive \<open>k\<close>, for every sector mapping with a positive total. This is the
  identity of exact arithmetic; the floats of the program are treated below.
\<close>

lemma hhi_scale_invariant_real:
  assumes "0 < total_exports self" and "0 < k"
  shows "\<exists>hhi m1 m2.
           calculate_export_diversification self year = Inr (hhi, m1)
         \<and> calculate_export_diversification (rescale k self) year = Inr (hhi, m2)
         \<and> hhi = hhi_spec (export_values self)"
proof -
  from assms have t: "total_exports self \<noteq> 0" and tk: "total_exports self * k \<noteq> 0" by auto
  from hhi_loop_total [OF t, of "export_values self" 0 "[]"]
  obtain sh1 where 1: "hhi_loop (total_exports self) (export_values self) 0 []
      = Inr ((\<Sum>(sector, v) \<leftarrow> export_values self. (v / total_exports self) ^ 2), sh1)"
    by auto
  from assms have k: "k \<noteq> 0" by simp
  from hhi_loop_total [OF tk, of "map (\<lambda>(sector, v). (sector, v * k)) (export_values self)" 0 "[]"]
  obtain sh2 where 2: "hhi_loop (total_exports self * k) (export_values (rescale k self)) 0 []
      = Inr ((\<Sum>(sector, v) \<leftarrow> export_values self. (v / total_exports self) ^ 2), sh2)"
    unfolding shares_rescale [OF k] export_values_rescale by auto
  show ?thesis
    by (simp add: calculate_export_diversification_def 1 2 total_exports_rescale hhi_spec_def
        total_exports_def [symmetric])
qed

lemma three_sectors_total: "total_exports three_sectors = 41"
  by (simp add: total_exports_def export_values_def three_sectors_def)

lemma hhi_scale_invariant_real_example:
  "0 < total_exports three_sectors \<and> (0::real) < 1000
   \<and> map_sum id fst (calculate_export_diversification (rescale 1000 three_sectors) 2025)
       = map_sum id fst (calculate_export_diversification three_sectors 2025)
   \<and> \<not> isl (calculate_export_diversification three_sectors 2025)"
proof -
  have t: "0 < total_exports three_sectors" by (simp add: three_sectors_total)
  from hhi_scale_invariant_real [OF t, of 1000 2025]
  obtain hhi m1 m2 where
    "calculate_export_diversification three_sectors 2025 = Inr (hhi, m1)"
    "calculate_export_diversification (rescale 1000 three_sectors) 2025 = Inr (hhi, m2)"
    by auto
  with t show ?thesis by simp
qed

subsection \<open>The diversification index on floats\<close>

lemma pow2_powi: "pow2 e = 2 powi e"
  by (simp add: pow2_def power_int_def power_one_over [symmetric] inverse_eq_divide)

lemma pow2_pos: "0 < pow2 e"
  by (simp add: pow2_powi)

lemma pow2_add: "pow2 (a + b) = pow2 a * pow2 b"
  by (simp add: pow2_powi power_int_add)

lemma pow2_diff: "pow2 (a - b) = pow2 a / pow2 b"
  by (simp add: pow2_powi power_int_diff)

lemma pow2_mono: "a \<le> b \<Longrightarrow> pow2 a \<le> pow2 b"
  by (simp add: pow2_powi power_int_increasing)

lemma pow2_strict_mono: "a < b \<Longrightarrow> pow2 a < pow2 b"
  by (simp add: pow2_powi power_int_strict_increasing)

lemma pow2_of_int: "0 \<le> e \<Longrightarrow> pow2 e = of_int (2 ^ nat e)"
  by (simp add: pow2_def)

lemma round_half_even_of_int: "round_half_even (of_int n) = n"
  by (simp add: round_half_even_def)

lemma round_half_even_small:
  assumes "0 \<le> x" "x < 1 / 2"
  shows "round_half_even x = 0"
proof -
  from assms have "\<lfloor>x\<rfloor> = 0" by (simp add: floor_eq_iff)
  with assms show ?thesis by (simp add: round_half_even_def)
qed

lemma find_upto_Some:
  assumes "find P [a..b] = Some e"
  shows "a \<le> e" "e \<le> b" "P e" "\<And>j. a \<le> j \<Longrightarrow> j < e \<Longrightarrow> \<not> P j"
proof -
  from assms obtain i where i: "i < length [a..b]" "P ([a..b] ! i)" "e = [a..b] ! i"
    "\<forall>j<i. \<not> P ([a..b] ! j)"
    by (auto simp: find_Some_iff)
  from i(1) have n: "[a..b] ! i = a + int i" by (intro nth_upto) simp
  from i(1) n i(3) show "a \<le> e" and eb: "e \<le> b" by simp_all
  from i(2,3) show "P e" by simp
  show "\<not> P j" if "a \<le> j" "j < e" for j
  proof -
    from that n i(3) have l: "nat (j - a) < i" by simp
    from that eb have "a + int (nat (j - a)) \<le> b" by simp
    then have "[a..b] ! nat (j - a) = a + int (nat (j - a))" by (rule nth_upto)
    with that have "[a..b] ! nat (j - a) = j" by simp
    with i(4) l show ?thesis by metis
  qed
qed

lemma find_upto_None:
  assumes "find P [a..b] = None" "a \<le> e" "e \<le> b"
  shows "\<not> P e"
  using assms by (auto simp: find_None_iff)

text \<open>The exponent of a real below \<open>2 ^ 1024\<close>.\<close>

lemma binary_exponent_cases:
  assumes "x < pow2 1024"
  obtains (exponent) e where "binary_exponent x = Some e" "- 1022 \<le> e" "e \<le> 1023"
    "x < pow2 (e + 1)" "e = - 1022 \<or> pow2 e \<le> x"
proof (cases "binary_exponent x")
  case None
  from find_upto_None [OF None [unfolded binary_exponent_def], of 1023] assms
  show thesis by simp
next
  case (Some e)
  note f = find_upto_Some [OF Some [unfolded binary_exponent_def]]
  have "e = - 1022 \<or> pow2 e \<le> x"
  proof (cases "e = - 1022")
    case False
    with f(1) have "- 1022 \<le> e - 1" "e - 1 < e" by simp_all
    from f(4) [OF this] show ?thesis by simp
  qed simp
  with Some f(1-3) show thesis by (rule that)
qed

text \<open>A real that is a float is its own rounding: the reals \<open>n * 2 ^ e\<close> with
  \<open>\<bar>n\<bar> < 2 ^ 53\<close> and \<open>e\<close> from -1074 to 971.\<close>

lemma round_double_exact:
  assumes n: "\<bar>n\<bar> < 2 ^ 53" and e: "- 1074 \<le> e" "e \<le> 971"
  shows "round_double (of_int n * pow2 e) = Finite (of_int n * pow2 e)"
proof -
  define x :: real where "x = of_int n * pow2 e"
  have ax: "\<bar>x\<bar> = of_int \<bar>n\<bar> * pow2 e"
    using pow2_pos [of e] by (simp add: x_def abs_mult)
  from n have "of_int \<bar>n\<bar> < (2 :: real) ^ 53"
    by (metis of_int_less_numeral_power_cancel_iff)
  then have n': "of_int \<bar>n\<bar> < pow2 53" by (simp add: pow2_def)
  have "\<bar>x\<bar> < pow2 53 * pow2 e"
    unfolding ax using n' pow2_pos [of e] by (simp add: mult_strict_right_mono)
  then have below: "\<bar>x\<bar> < pow2 (e + 53)" by (simp add: pow2_add mult.commute)
  also have "\<dots> \<le> pow2 1024" using e by (intro pow2_mono) simp
  finally have "\<bar>x\<bar> < pow2 1024" .
  then show ?thesis
  proof (cases rule: binary_exponent_cases)
    case (exponent E)
    have le: "E - 52 \<le> e"
    proof (rule ccontr)
      assume "\<not> E - 52 \<le> e"
      then have l: "e + 53 \<le> E" by simp
      with e have "E \<noteq> - 1022" by simp
      with exponent(5) have "pow2 E \<le> \<bar>x\<bar>" by simp
      with below have "pow2 E < pow2 (e + 53)" by simp
      moreover from l have "pow2 (e + 53) \<le> pow2 E" by (rule pow2_mono)
      ultimately show False by simp
    qed
    then have "pow2 e = pow2 ((e - (E - 52)) + (E - 52))" by simp
    also have "\<dots> = pow2 (e - (E - 52)) * pow2 (E - 52)" by (rule pow2_add)
    also have "pow2 (e - (E - 52)) = of_int (2 ^ nat (e - (E - 52)))"
      using le by (intro pow2_of_int) simp
    finally have pe: "pow2 e = of_int (2 ^ nat (e - (E - 52))) * pow2 (E - 52)" .
    have q: "\<bar>x\<bar> / pow2 (E - 52) = of_int (\<bar>n\<bar> * 2 ^ nat (e - (E - 52)))"
      unfolding ax using pow2_pos [of "E - 52"] by (subst pe) simp
    have r: "of_int (round_half_even (\<bar>x\<bar> / pow2 (E - 52))) * pow2 (E - 52) = \<bar>x\<bar>"
      unfolding q round_half_even_of_int unfolding q [symmetric]
      using pow2_pos [of "E - 52"] by simp
    have "round_double x = Finite (if 0 < x then \<bar>x\<bar> else - \<bar>x\<bar>)"
      unfolding round_double_def exponent(1) option.case Let_def r
      using \<open>\<bar>x\<bar> < pow2 1024\<close> by simp
    also have "(if 0 < x then \<bar>x\<bar> else - \<bar>x\<bar>) = x" by simp
    finally show ?thesis by (simp add: x_def)
  qed
qed

text \<open>A real below half the least positive float, \<open>2 ^ -1074\<close>, rounds to zero.\<close>

lemma round_double_underflow:
  assumes "\<bar>x\<bar> < pow2 (- 1075)"
  shows "round_double x = Finite 0"
proof -
  have "pow2 (- 1075) \<le> pow2 1024" by (intro pow2_mono) simp
  with assms have "\<bar>x\<bar> < pow2 1024" by simp
  then show ?thesis
  proof (cases rule: binary_exponent_cases)
    case (exponent E)
    have E: "E = - 1022"
    proof (rule ccontr)
      assume "E \<noteq> - 1022"
      with exponent(5) have "pow2 E \<le> \<bar>x\<bar>" by simp
      with assms have "pow2 E < pow2 (- 1075)" by simp
      moreover from exponent(2) have "pow2 (- 1075) \<le> pow2 E" by (intro pow2_mono) simp
      ultimately show False by simp
    qed
    have "\<bar>x\<bar> / pow2 (- 1074) < pow2 (- 1075) / pow2 (- 1074)"
      using assms pow2_pos [of "- 1074"] by (simp add: divide_strict_right_mono)
    also have "\<dots> = pow2 (- 1075 - (- 1074))" by (rule pow2_diff [symmetric])
    also have "\<dots> = 1 / 2" by (simp add: pow2_def)
    finally have "round_half_even (\<bar>x\<bar> / pow2 (- 1074)) = 0"
      using pow2_pos [of "- 1074"] by (intro round_half_even_small) simp_all
    then have r: "of_int (round_half_even (\<bar>x\<bar> / pow2 (E - 52))) * pow2 (E - 52) = 0"
      by (simp add: E)
    show ?thesis
      unfolding round_double_def exponent(1) option.case Let_def r
      using pow2_pos [of 1024] by simp
  qed
qed

text \<open>The floats of the examples.\<close>

lemma round_double_examples:
  "round_double 0 = Finite 0"
  "round_double 1 = Finite 1"
  "round_double 2 = Finite 2"
  "round_double 3 = Finite 3"
  "round_double 4 = Finite 4"
  "round_double 6 = Finite 6"
  "round_double 8 = Finite 8"
  "round_double (1 / 4) = Finite (1 / 4)"
  "round_double (3 / 4) = Finite (3 / 4)"
  "round_double (1 / 16) = Finite (1 / 16)"
  "round_double (9 / 16) = Finite (9 / 16)"
  "round_double (5 / 8) = Finite (5 / 8)"
  using round_double_exact [of 0 0] round_double_exact [of 1 0] round_double_exact [of 2 0]
    round_double_exact [of 3 0] round_double_exact [of 4 0] round_double_exact [of 6 0]
    round_double_exact [of 8 0]
    round_double_exact [of 1 "- 2"] round_double_exact [of 3 "- 2"]
    round_double_exact [of 1 "- 4"] round_double_exact [of 9 "- 4"]
    round_double_exact [of 5 "- 3"]
  by (simp_all add: pow2_def)

lemma round_double_tiny:
  "round_double (pow2 (- 600)) = Finite (pow2 (- 600))"
  "round_double (4 * pow2 (- 600)) = Finite (4 * pow2 (- 600))"
  using round_double_exact [of 1 "- 600"] round_double_exact [of 4 "- 600"]
  by simp_all

lemma round_double_tiny_products:
  "round_double (pow2 (- 600) * pow2 (- 600)) = Finite 0"
  "round_double (3 * pow2 (- 600) * pow2 (- 600)) = Finite 0"
proof -
  have p: "pow2 (- 600) * pow2 (- 600) = pow2 (- 1200)"
    using pow2_add [of "- 600" "- 600"] by simp
  have "4 * pow2 (- 1200) = pow2 2 * pow2 (- 1200)" by (simp add: pow2_def)
  also have "\<dots> = pow2 (- 1198)" using pow2_add [of 2 "- 1200"] by simp
  also have "\<dots> < pow2 (- 1075)" by (intro pow2_strict_mono) simp
  finally have 4: "4 * pow2 (- 1200) < pow2 (- 1075)" .
  have 0: "0 < pow2 (- 1200)" by (rule pow2_pos)
  from 0 4 have "\<bar>pow2 (- 1200)\<bar> < pow2 (- 1075)" by simp
  then show "round_double (pow2 (- 600) * pow2 (- 600)) = Finite 0"
    unfolding p by (rule round_double_underflow)
  from 0 4 have "\<bar>3 * pow2 (- 1200)\<bar> < pow2 (- 1075)" by simp
  then have "round_double (3 * pow2 (- 1200)) = Finite 0"
    by (rule round_double_underflow)
  then show "round_double (3 * pow2 (- 600) * pow2 (- 600)) = Finite 0"
    by (simp add: p mult.assoc)
qed

text \<open>The loop on values and a total that were all multiplied by \<open>k\<close> exactly: the
  quotients are the same reals, hence the same floats.\<close>

lemma float_hhi_loop_rescale:
  assumes "k \<noteq> 0"
    and "\<forall>(sector, v) \<in> set vs. \<exists>r. v = Finite r \<and> float_mul v (Finite k) = Finite (r * k)"
  shows "float_hhi_loop (Finite (t * k)) (float_rescale (Finite k) vs) h s
       = float_hhi_loop (Finite t) vs h s"
  using assms(2)
proof (induction vs arbitrary: h s)
  case Nil
  show ?case by (simp add: float_rescale_def)
next
  case (Cons p vs)
  obtain sector v where p: "p = (sector, v)" by (cases p)
  from Cons.prems p obtain r where v: "v = Finite r" "float_mul v (Finite k) = Finite (r * k)"
    by auto
  from assms(1) have q: "r * k / (t * k) = r / t" by simp
  from assms(1) have d: "float_div (Finite (r * k)) (Finite (t * k)) = float_div (Finite r) (Finite t)"
    by (simp add: q)
  from Cons.prems have rest: "\<forall>(sector, v) \<in> set vs.
      \<exists>r. v = Finite r \<and> float_mul v (Finite k) = Finite (r * k)"
    by simp
  have step: "float_rescale (Finite k) ((sector, Finite r) # vs)
      = (sector, Finite (r * k)) # float_rescale (Finite k) vs"
    using v by (simp add: float_rescale_def)
  show ?case
    unfolding p v(1) step float_hhi_loop.simps d
    by (simp add: Cons.IH [OF rest] split: sum.splits)
qed

text \<open>
  C2 as stated fails in the arithmetic of the program. The sectors with the
  values \<open>2 ** -600\<close> and \<open>3 * 2 ** -600\<close> have the total \<open>2 ** -598\<close> and the HHI
  \<open>0.25 ** 2 + 0.75 ** 2 = 0.625\<close>, every operation exact. Multiplied by the positive
  \<open>k = 2 ** -600\<close>, both values are the float 0, and the call raises
  \<open>ZeroDivisionError\<close>.
\<close>

theorem hhi_of_rescaled_tiny_sectors:
  "float_sum (map snd tiny_sectors) = Finite (4 * pow2 (- 600))
   \<and> float_export_diversification tiny_sectors
       = Inr (Finite (5 / 8), [(''rmg'', Finite (1 / 4)), (''jute'', Finite (3 / 4))])
   \<and> float_rescale (Finite (pow2 (- 600))) tiny_sectors
       = [(''rmg'', Finite 0), (''jute'', Finite 0)]
   \<and> float_export_diversification (float_rescale (Finite (pow2 (- 600))) tiny_sectors)
       = Inl FloatDivisionByZero"
proof -
  have p: "pow2 (- 600) \<noteq> 0" using pow2_pos [of "- 600"] by simp
  have s: "float_sum (map snd tiny_sectors) = Finite (4 * pow2 (- 600))"
    by (simp add: float_sum_def tiny_sectors_def round_double_tiny)
  have q: "pow2 (- 600) / (4 * pow2 (- 600)) = 1 / 4"
    "3 * pow2 (- 600) / (4 * pow2 (- 600)) = 3 / 4"
    using p by simp_all
  have 1: "float_export_diversification tiny_sectors
       = Inr (Finite (5 / 8), [(''rmg'', Finite (1 / 4)), (''jute'', Finite (3 / 4))])"
    unfolding float_export_diversification_def s
    by (simp add: tiny_sectors_def p q round_double_examples)
  have r: "float_rescale (Finite (pow2 (- 600))) tiny_sectors
       = [(''rmg'', Finite 0), (''jute'', Finite 0)]"
    by (simp add: float_rescale_def tiny_sectors_def round_double_tiny_products)
  have 2: "float_export_diversification (float_rescale (Finite (pow2 (- 600))) tiny_sectors)
       = Inl FloatDivisionByZero"
    unfolding r by (simp add: float_export_diversification_def float_sum_def round_double_examples)
  from s 1 r 2 show ?thesis by simp
qed

text \<open>
  C2, amended. When the multiplication by a positive \<open>k\<close> is exact, the result of
  \<open>calculate_export_diversification\<close> for the values \<open>{s: v * k}\<close> is the result for
  the original values: the same HHI and the same shares, or the same
  \<open>ZeroDivisionError\<close> when the total is zero. Exact means that every product
  \<open>v * k\<close> is computed without rounding, overflow or underflow, and that the sum of
  the products is \<open>k\<close> times the sum of the values, as it is for a power of two \<open>k\<close>
  while all numbers stay in the range of the normal floats. Otherwise the two
  HHIs are roundings of different quotients and can differ.
\<close>

theorem hhi_invariant_under_exact_rescaling:
  assumes "0 < k"
    and "\<forall>(sector, v) \<in> set export_vals.
           \<exists>r. v = Finite r \<and> float_mul v (Finite k) = Finite (r * k)"
    and "float_sum (map snd export_vals) = Finite t"
    and "float_sum (map snd (float_rescale (Finite k) export_vals)) = Finite (t * k)"
  shows "float_export_diversification (float_rescale (Finite k) export_vals)
       = float_export_diversification export_vals"
proof -
  from assms(1) have "k \<noteq> 0" by simp
  from float_hhi_loop_rescale [OF this assms(2), of t "Finite 0" "[]"] show ?thesis
    by (simp add: float_export_diversification_def assms(3,4))
qed

theorem hhi_invariant_under_exact_rescaling_witness:
  "float_sum (map snd small_sectors) = Finite 4
   \<and> float_rescale (Finite 2) small_sectors = [(''rmg'', Finite 2), (''jute'', Finite 6)]
   \<and> float_sum (map snd (float_rescale (Finite 2) small_sectors)) = Finite 8
   \<and> float_export_diversification (float_rescale (Finite 2) small_sectors)
       = float_export_diversification small_sectors
   \<and> float_export_diversification small_sectors
       = Inr (Finite (5 / 8), [(''rmg'', Finite (1 / 4)), (''jute'', Finite (3 / 4))])"
proof -
  have s: "float_sum (map snd small_sectors) = Finite 4"
    by (simp add: float_sum_def small_sectors_def round_double_examples)
  have r: "float_rescale (Finite 2) small_sectors = [(''rmg'', Finite 2), (''jute'', Finite 6)]"
    by (simp add: float_rescale_def small_sectors_def round_double_examples)
  have sr: "float_sum (map snd (float_rescale (Finite 2) small_sectors)) = Finite (4 * 2)"
    unfolding r by (simp add: float_sum_def round_double_examples)
  have v: "\<forall>(sector, v) \<in> set small_sectors.
             \<exists>r. v = Finite r \<and> float_mul v (Finite 2) = Finite (r * 2)"
    by (simp add: small_sectors_def round_double_examples)
  have k: "(0 :: real) < 2" by simp
  have 1: "float_export_diversification small_sectors
       = Inr (Finite (5 / 8), [(''rmg'', Finite (1 / 4)), (''jute'', Finite (3 / 4))])"
    unfolding float_export_diversification_def s
    by (simp add: small_sectors_def round_double_examples)
  from hhi_invariant_under_exact_rescaling [OF k v s sr] s r sr 1 show ?thesis by simp
qed

subsection \<open>A zero total\<close>

text \<open>
  C10 as stated fails for a model without sectors: the total is zero, the loop
  with the division is never entered, and the method returns the HHI 0.
\<close>

theorem diversification_without_sectors_returns:
  "total_exports no_sectors = 0
   \<and> map_sum id fst (calculate_export_diversification no_sectors 2025) = Inr 0"
  by (simp add: total_exports_def export_values_def no_sectors_def
      calculate_export_diversification_def)

text \<open>
  C10, amended. \<open>calculate_export_diversification\<close> divides each sector's value by
  the total with no zero guard: for a model with at least one sector it returns an
  HHI exactly when the total of the sector values is nonzero, and it raises
  \<open>ZeroDivisionError\<close> when the total is zero, in particular when every sector
  value is 0.
\<close>

theorem diversification_zero_total:
  assumes "export_sectors self \<noteq> []"
  shows "(total_exports self = 0 \<longrightarrow>
            calculate_export_diversification self year = Inl ZeroDivisionError)
       \<and> (total_exports self \<noteq> 0 \<longrightarrow>
            (\<exists>m. calculate_export_diversification self year
                    = Inr (hhi_spec (export_values self), m)))
       \<and> ((\<forall>(sector, data) \<in> set (export_sectors self). export_value data = 0) \<longrightarrow>
            calculate_export_diversification self year = Inl ZeroDivisionError)"
proof -
  from assms have ne: "export_values self \<noteq> []" by (simp add: export_values_def)
  have z: "calculate_export_diversification self year = Inl ZeroDivisionError"
    if "total_exports self = 0"
    using that ne by (simp add: calculate_export_diversification_def hhi_loop_zero)
  have nz: "\<exists>m. calculate_export_diversification self year
                  = Inr (hhi_spec (export_values self), m)"
    if t: "total_exports self \<noteq> 0"
  proof -
    from hhi_loop_total [OF t, of "export_values self" 0 "[]"]
    obtain sh1 where 1: "hhi_loop (total_exports self) (export_values self) 0 []
        = Inr ((\<Sum>(sector, v) \<leftarrow> export_values self. (v / total_exports self) ^ 2), sh1)"
      by auto
    show ?thesis
      by (simp add: calculate_export_diversification_def 1 hhi_spec_def
          total_exports_def [symmetric])
  qed
  have all0: "total_exports self = 0"
    if a: "\<forall>(sector, data) \<in> set (export_sectors self). export_value data = 0"
  proof -
    have "sum_list (map snd (map (\<lambda>(sector, data). (sector, export_value data)) xs)) = 0"
      if "\<forall>(sector, data) \<in> set xs. export_value data = 0"
      for xs :: "(string \<times> sector_data) list"
      using that by (induction xs) auto
    from this [OF a] show ?thesis by (simp add: total_exports_def export_values_def)
  qed
  from z nz all0 show ?thesis by blast
qed

theorem diversification_zero_total_witness:
  "export_sectors zero_sectors \<noteq> [] \<and> total_exports zero_sectors = 0
   \<and> calculate_export_diversification zero_sectors 2025 = Inl ZeroDivisionError
   \<and> export_sectors three_sectors \<noteq> [] \<and> total_exports three_sectors = 41
   \<and> \<not> isl (calculate_export_diversification three_sectors 2025)"
proof -
  have n0: "export_sectors zero_sectors \<noteq> []" by (simp add: zero_sectors_def)
  have t0: "total_exports zero_sectors = 0"
    by (simp add: total_exports_def export_values_def zero_sectors_def)
  have n3: "export_sectors three_sectors \<noteq> []" by (simp add: three_sectors_def)
  from diversification_zero_total [OF n0, of 2025] t0
  have a: "calculate_export_diversification zero_sectors 2025 = Inl ZeroDivisionError"
    by blast
  from diversification_zero_total [OF n3, of 2025] three_sectors_total
  have b: "\<not> isl (calculate_export_diversification three_sectors 2025)"
    by auto
  from n0 t0 n3 a b three_sectors_total show ?thesis by simp
qed

subsection \<open>Value chain upgrading\<close>

lemma upgrade_sector_mono:
  assumes "0 \<le> value_chain_position d" "value_chain_position d \<le> 0.95"
    and "0 \<le> complexity d" "0 \<le> ce" "- 0.005 \<le> r"
  shows "value_chain_position d \<le> value_chain_position (upgrade_sector ce r d)"
proof -
  have u: "0 \<le> 0.01 + ce + complexity d * 0.01 + r"
    using assms by simp
  have f: "0 \<le> 1 - value_chain_position d * 0.7"
    using assms by simp
  have "0 \<le> (0.01 + ce + complexity d * 0.01 + r) * (1 - value_chain_position d * 0.7)"
    using u f by (rule mult_nonneg_nonneg)
  then show ?thesis
    using assms(2) by (simp add: upgrade_sector_def Let_def)
qed

lemma upgrade_loop_length: "length (upgrade_loop ce draws k xs) = length xs"
  by (induction xs arbitrary: k) auto

lemma upgrade_loop_nth:
  "i < length xs \<Longrightarrow>
     upgrade_loop ce draws k xs ! i
       = (fst (xs ! i), upgrade_sector ce (draws (k + i)) (snd (xs ! i)))"
proof (induction xs arbitrary: k i)
  case Nil
  then show ?case by simp
next
  case (Cons p xs)
  obtain sector d where p: "p = (sector, d)" by (cases p)
  show ?case
  proof (cases i)
    case 0
    then show ?thesis by (simp add: p)
  next
    case (Suc j)
    with Cons.prems have "j < length xs" by simp
    from Cons.IH [OF this, of "Suc k"] show ?thesis by (simp add: p Suc)
  qed
qed

text \<open>
  C4. One step of \<open>simulate_value_chain_upgrading\<close> never lowers a sector's
  \<open>value_chain_position\<close>: in a state where every sector's position lies between 0
  and 0.95 and its complexity is nonnegative, and the capability index is
  nonnegative, the step returns, keeps the sectors in place, and the position of
  each sector after the step is at least the one before, whatever values between
  -0.005 and 0.015 the random component takes.
\<close>

theorem value_chain_position_never_decreases:
  assumes "i < length (export_sectors self)"
    and "\<forall>(sector, d) \<in> set (export_sectors self).
           0 \<le> value_chain_position d \<and> value_chain_position d \<le> 0.95 \<and> 0 \<le> complexity d"
    and "0 \<le> capability_index (metrics self)"
    and "\<forall>j. - 0.005 \<le> draws j \<and> draws j \<le> 0.015"
  shows "\<exists>positions self'.
           simulate_value_chain_upgrading self year draws = Inr (positions, self')
         \<and> length (export_sectors self') = length (export_sectors self)
         \<and> fst (export_sectors self' ! i) = fst (export_sectors self ! i)
         \<and> value_chain_position (snd (export_sectors self ! i))
             \<le> value_chain_position (snd (export_sectors self' ! i))
         \<and> positions ! i = (fst (export_sectors self ! i),
                            value_chain_position (snd (export_sectors self' ! i)))"
proof -
  let ?ce = "capability_index (metrics self) * 0.02"
  let ?new = "upgrade_loop ?ce draws 0 (export_sectors self)"
  have ne: "?new \<noteq> []"
    using assms(1) upgrade_loop_length [of ?ce draws 0 "export_sectors self"] by auto
  have nth: "?new ! i = (fst (export_sectors self ! i),
                         upgrade_sector ?ce (draws i) (snd (export_sectors self ! i)))"
    using upgrade_loop_nth [OF assms(1), of ?ce draws 0] by simp
  have mem: "export_sectors self ! i \<in> set (export_sectors self)"
    using assms(1) by simp
  with assms(2) have d: "0 \<le> value_chain_position (snd (export_sectors self ! i))"
    "value_chain_position (snd (export_sectors self ! i)) \<le> 0.95"
    "0 \<le> complexity (snd (export_sectors self ! i))"
    by (auto simp: case_prod_unfold)
  have ce: "0 \<le> ?ce" using assms(3) by simp
  have r: "- 0.005 \<le> draws i" using assms(4) by simp
  have mono: "value_chain_position (snd (export_sectors self ! i))
      \<le> value_chain_position (upgrade_sector ?ce (draws i) (snd (export_sectors self ! i)))"
    by (rule upgrade_sector_mono [OF d ce r])
  have li: "i < length ?new" using assms(1) by (simp add: upgrade_loop_length)
  show ?thesis
    using ne mono li nth
    by (simp add: simulate_value_chain_upgrading_def Let_def upgrade_loop_length
        case_prod_unfold)
qed

text \<open>The witness takes the lowest admissible draw for every sector.\<close>

theorem value_chain_position_never_decreases_witness:
  "(1::nat) < length (export_sectors three_sectors)
   \<and> 0 \<le> capability_index (metrics three_sectors)
   \<and> \<not> isl (simulate_value_chain_upgrading three_sectors 2025 (\<lambda>j. - 0.005))
   \<and> value_chain_position (snd (export_sectors three_sectors ! 1))
       \<le> value_chain_position
           (snd (export_sectors
             (snd (projr (simulate_value_chain_upgrading three_sectors 2025 (\<lambda>j. - 0.005)))) ! 1))"
proof -
  have 1: "(1::nat) < length (export_sectors three_sectors)"
    by (simp add: three_sectors_def)
  have 2: "\<forall>(sector, d) \<in> set (export_sectors three_sectors).
           0 \<le> value_chain_position d \<and> value_chain_position d \<le> 0.95 \<and> 0 \<le> complexity d"
    by (simp add: three_sectors_def)
  have 3: "0 \<le> capability_index (metrics three_sectors)"
    by (simp add: three_sectors_def initial_metrics_def)
  have 4: "\<forall>j::nat. - 0.005 \<le> (- 0.005 :: real) \<and> (- 0.005 :: real) \<le> 0.015"
    by simp
  from value_chain_position_never_decreases [OF 1 2 3 4, of 2025]
  obtain positions self' where
    "simulate_value_chain_upgrading three_sectors 2025 (\<lambda>j. - 0.005) = Inr (positions, self')"
    "value_chain_position (snd (export_sectors three_sectors ! 1))
       \<le> value_chain_position (snd (export_sectors self' ! 1))"
    by blast
  with 1 3 show ?thesis by simp
qed

section \<open>Properties of the exchange rate model\<close>

lemma intervention_none:
  "\<bar>p\<bar> \<le> intervention_threshold self \<Longrightarrow>
     central_bank_intervention self p stance imports = (p, 0, self)"
  by (simp add: central_bank_intervention_def)

lemma apply_depreciation_reserves:
  "foreign_reserves (apply_depreciation self yi a) = foreign_reserves self"
  by (simp add: apply_depreciation_def Let_def)

text \<open>
  C3. Whenever \<open>simulate_exchange_rate\<close> computes a potential depreciation whose
  absolute value is at most \<open>intervention_threshold\<close>, the central bank does not
  intervene, whatever the intervention stance: the actual depreciation is the
  potential one, the intervention cost is 0, and the reserves (stored and
  reported) are the previous reserves plus the overall balance, with no cost taken
  off. The call returns whenever the imports are not zero.
\<close>

theorem no_intervention_below_threshold:
  assumes "dict_get balance_of_payments ''imports'' 0 \<noteq> 0"
  shows "\<exists>res self'.
           simulate_exchange_rate self year_index balance_of_payments central_bank_policy
             global_conditions noise = Inr (res, self')
         \<and> (\<bar>potential_depreciation res\<bar> \<le> intervention_threshold self \<longrightarrow>
               depreciation_rate res = potential_depreciation res
             \<and> intervention_cost res = 0
             \<and> foreign_reserves self' = foreign_reserves self + overall_balance res
             \<and> x_foreign_reserves res = foreign_reserves self + overall_balance res)"
proof -
  define imps where "imps = dict_get balance_of_payments ''imports'' 0"
  define overall where "overall =
     dict_get balance_of_payments ''exports'' 0 - imps
       + dict_get balance_of_payments ''remittances'' 0
       - dict_get balance_of_payments ''profit_repatriation'' 0
       + (dict_get balance_of_payments ''fdi'' 0 + dict_get balance_of_payments ''aid_loans'' 0
          - dict_get balance_of_payments ''other_outflows'' 0)"
  define self1 where "self1 = self\<lparr> foreign_reserves := foreign_reserves self + overall \<rparr>"
  define potential where "potential = annual_depreciation self1
     + (base_pressure_of overall imps global_conditions
          (reserve_pressure_of (reserve_months_of (foreign_reserves self1) imps)) + noise) * 0.1"
  define stance where "stance = dict_get central_bank_policy ''intervention_stance'' 0.5"
  obtain actual cost self2 where
    cb: "central_bank_intervention self1 potential stance imps = (actual, cost, self2)"
    by (cases "central_bank_intervention self1 potential stance imps") auto
  have thr: "intervention_threshold self1 = intervention_threshold self"
    by (simp add: self1_def)
  have none: "actual = potential \<and> cost = 0 \<and> self2 = self1"
    if "\<bar>potential\<bar> \<le> intervention_threshold self"
    using that cb intervention_none [of potential self1 stance imps] thr by simp
  have r1: "foreign_reserves self1 = foreign_reserves self + overall"
    by (simp add: self1_def)
  show ?thesis
    using assms none r1
    unfolding simulate_exchange_rate_def Let_def
    unfolding imps_def [symmetric] overall_def [symmetric] self1_def [symmetric]
      potential_def [symmetric] stance_def [symmetric] cb
    by (simp add: apply_depreciation_reserves)
qed

lemma calm_run_value:
  "calm_run = Inr (r, s) \<Longrightarrow> potential_depreciation r = 0.039 \<and> overall_balance r = 12000"
  by (auto simp: calm_run_def simulate_exchange_rate_def ExchangeRateModel_init_def dict_get_def
      bop_estimate_def cb_policy_estimate_def Let_def reserve_months_of_def reserve_pressure_of_def
      base_pressure_of_def central_bank_intervention_def apply_depreciation_def)

theorem no_intervention_below_threshold_witness:
  "dict_get bop_estimate ''imports'' 0 \<noteq> (0::real)
   \<and> \<not> isl calm_run
   \<and> \<bar>potential_depreciation (fst (projr calm_run))\<bar>
       \<le> intervention_threshold (ExchangeRateModel_init [])
   \<and> depreciation_rate (fst (projr calm_run)) = 0.039
   \<and> intervention_cost (fst (projr calm_run)) = 0
   \<and> foreign_reserves (snd (projr calm_run)) = 47000"
proof -
  have i: "dict_get bop_estimate ''imports'' 0 \<noteq> (0::real)"
    by (simp add: dict_get_def bop_estimate_def)
  have t: "intervention_threshold (ExchangeRateModel_init []) = 0.08"
    "foreign_reserves (ExchangeRateModel_init []) = 35000"
    by (simp_all add: ExchangeRateModel_init_def dict_get_def)
  from no_intervention_below_threshold [OF i, of "ExchangeRateModel_init []" 0
      cb_policy_estimate "[]" 0]
  obtain res self' where
    r: "calm_run = Inr (res, self')"
    and c: "\<bar>potential_depreciation res\<bar> \<le> intervention_threshold (ExchangeRateModel_init []) \<longrightarrow>
               depreciation_rate res = potential_depreciation res
             \<and> intervention_cost res = 0
             \<and> foreign_reserves self'
                 = foreign_reserves (ExchangeRateModel_init []) + overall_balance res
             \<and> x_foreign_reserves res
                 = foreign_reserves (ExchangeRateModel_init []) + overall_balance res"
    unfolding calm_run_def by blast
  from calm_run_value [OF r] have v: "potential_depreciation res = 0.039"
    "overall_balance res = 12000" by simp_all
  from c v t i show ?thesis by (simp add: r)
qed

section \<open>Properties of the simulation engine\<close>

subsection \<open>One year\<close>

lemma guarded_call_raise:
  "call_model self mk args w = (Inl msg, w') \<Longrightarrow>
     guarded_call self mk rk args yr w = ([], AList.update rk (error_marker msg) yr, w')"
  by (simp add: guarded_call_def)

lemma guarded_call_return:
  "call_model self mk args w = (Inr r, w') \<Longrightarrow>
     guarded_call self mk rk args yr w = (r, AList.update rk (JObj r) yr, w')"
  by (simp add: guarded_call_def)

lemma guarded_call_outcome:
  "call_model self mk args w = (out, w') \<Longrightarrow>
     guarded_call self mk rk args yr w = (local_of out, AList.update rk (entry_of out) yr, w')"
  by (cases out) (simp_all add: guarded_call_def local_of_def entry_of_def)

text \<open>
  The ten blocks of steps 1 to 4 unfolded: the outcome of each call, made in the
  world the call before it left, and \<open>year_results\<close> with one entry per call.
\<close>

lemma macro_steps:
  fixes self :: "'w engine"
  obtains (steps) o1 w1 o2 w2 o3 w3 o4 w4 o5 w5 o6 w6 o7 w7 o8 w8 o9 w9 o10 w10
  where
    "call_model self ''global_market''
       [JNum (of_int (year - start_year self)), JNum (of_int year), JStr (scenario self)] w0
       = (o1, w1)"
    "call_model self ''geopolitical''
       [JNum (of_int (year - start_year self)), JNum (of_int year)] w1 = (o2, w2)"
    "call_model self ''investment''
       [JNum (of_int year), JObj (merge (local_of o1) (local_of o2))] w2 = (o3, w3)"
    "call_model self ''trade_policy''
       [JNum (of_int (year - start_year self)), JNum (of_int year)] w3 = (o4, w4)"
    "call_model self ''logistics''
       [JNum (of_int (year - start_year self)), JNum (of_int year),
        JNum 100000, JNum 0.5, JNum 0.6] w4 = (o5, w5)"
    "call_model self ''exchange_rate''
       [JNum (of_int (year - start_year self)), JObj bop_estimate_jv,
        JObj cb_policy_estimate_jv, JObj (local_of o1)] w5 = (o6, w6)"
    "call_model self ''compliance''
       [JNum (of_int (year - start_year self)), JNum (of_int year), JNum 0.6, JNum 0.7] w6
       = (o7, w7)"
    "call_model self ''structural'' [JNum (of_int year)] w7 = (o8, w8)"
    "call_model self ''digital_trade'' [JNum (of_int year), JObj (local_of o1)] w8 = (o9, w9)"
    "call_model self ''services_trade'' [JNum (of_int year), JObj (local_of o1)] w9 = (o10, w10)"
    "simulate_macro_models self year w0 =
       \<lparr> lv_global_conditions = local_of o1, lv_investment_results = local_of o3,
         lv_trade_policy_results = local_of o4, lv_logistics_results = local_of o5,
         lv_exchange_rate_results = local_of o6, lv_compliance_results = local_of o7,
         lv_digital_trade_results = local_of o9,
         lv_year_results =
           [(''global_market'', entry_of o1), (''geopolitical'', entry_of o2),
            (''investment'', entry_of o3), (''trade_policy'', entry_of o4),
            (''logistics'', entry_of o5), (''exchange_rate'', entry_of o6),
            (''compliance'', entry_of o7), (''structural_transformation'', entry_of o8),
            (''digital_trade'', entry_of o9), (''services_trade'', entry_of o10)],
         lv_world = w10 \<rparr>"
proof -
  obtain o1 w1 where s1: "call_model self ''global_market''
       [JNum (of_int (year - start_year self)), JNum (of_int year), JStr (scenario self)] w0
       = (o1, w1)"
    by fastforce
  obtain o2 w2 where s2: "call_model self ''geopolitical''
       [JNum (of_int (year - start_year self)), JNum (of_int year)] w1 = (o2, w2)"
    by fastforce
  obtain o3 w3 where s3: "call_model self ''investment''
       [JNum (of_int year), JObj (merge (local_of o1) (local_of o2))] w2 = (o3, w3)"
    by fastforce
  obtain o4 w4 where s4: "call_model self ''trade_policy''
       [JNum (of_int (year - start_year self)), JNum (of_int year)] w3 = (o4, w4)"
    by fastforce
  obtain o5 w5 where s5: "call_model self ''logistics''
       [JNum (of_int (year - start_year self)), JNum (of_int year),
        JNum 100000, JNum 0.5, JNum 0.6] w4 = (o5, w5)"
    by fastforce
  obtain o6 w6 where s6: "call_model self ''exchange_rate''
       [JNum (of_int (year - start_year self)), JObj bop_estimate_jv,
        JObj cb_policy_estimate_jv, JObj (local_of o1)] w5 = (o6, w6)"
    by fastforce
  obtain o7 w7 where s7: "call_model self ''compliance''
       [JNum (of_int (year - start_year self)), JNum (of_int year), JNum 0.6, JNum 0.7] w6
       = (o7, w7)"
    by fastforce
  obtain o8 w8 where s8: "call_model self ''structural'' [JNum (of_int year)] w7 = (o8, w8)"
    by fastforce
  obtain o9 w9 where s9:
    "call_model self ''digital_trade'' [JNum (of_int year), JObj (local_of o1)] w8 = (o9, w9)"
    by fastforce
  obtain o10 w10 where s10:
    "call_model self ''services_trade'' [JNum (of_int year), JObj (local_of o1)] w9 = (o10, w10)"
    by fastforce
  note g = guarded_call_outcome
  have "simulate_macro_models self year w0 =
       \<lparr> lv_global_conditions = local_of o1, lv_investment_results = local_of o3,
         lv_trade_policy_results = local_of o4, lv_logistics_results = local_of o5,
         lv_exchange_rate_results = local_of o6, lv_compliance_results = local_of o7,
         lv_digital_trade_results = local_of o9,
         lv_year_results =
           [(''global_market'', entry_of o1), (''geopolitical'', entry_of o2),
            (''investment'', entry_of o3), (''trade_policy'', entry_of o4),
            (''logistics'', entry_of o5), (''exchange_rate'', entry_of o6),
            (''compliance'', entry_of o7), (''structural_transformation'', entry_of o8),
            (''digital_trade'', entry_of o9), (''services_trade'', entry_of o10)],
         lv_world = w10 \<rparr>"
    unfolding simulate_macro_models_def Let_def
      g [OF s1] prod.case g [OF s2] g [OF s3] g [OF s4] g [OF s5] g [OF s6] g [OF s7]
      g [OF s8] g [OF s9] g [OF s10]
    by simp
  with s1 s2 s3 s4 s5 s6 s7 s8 s9 s10 show thesis
    by (rule that)
qed

lemma macro_keys:
  "map fst (lv_year_results (simulate_macro_models self year w0)) = map snd macro_calls"
proof (cases rule: macro_steps [of self year w0])
  case (steps o1 w1 o2 w2 o3 w3 o4 w4 o5 w5 o6 w6 o7 w7 o8 w8 o9 w9 o10 w10)
  show ?thesis by (simp add: steps(11) macro_calls_def)
qed

lemma macro_investment:
  "lv_investment_results (simulate_macro_models self year w0) = []
   \<or> (\<exists>args w w'. call_model self ''investment'' args w
         = (Inr (lv_investment_results (simulate_macro_models self year w0)), w'))"
proof (cases rule: macro_steps [of self year w0])
  case (steps o1 w1 o2 w2 o3 w3 o4 w4 o5 w5 o6 w6 o7 w7 o8 w8 o9 w9 o10 w10)
  show ?thesis
  proof (cases o3)
    case (Inl msg)
    then show ?thesis by (simp add: steps(11) local_of_def)
  next
    case (Inr r)
    with steps(3) show ?thesis
      unfolding steps(11) by (auto simp: local_of_def)
  qed
qed

text \<open>Each entry of \<open>year_results\<close> is what a call of its model left.\<close>

lemma outcome_of_call:
  "call_model self mk args w = (out, w') \<Longrightarrow>
     \<exists>args w. entry_of out = entry_of (fst (call_model self mk args w))"
  by (metis fst_conv)

lemma macro_entry:
  assumes "(mk, rk) \<in> set macro_calls"
  shows "\<exists>args w. map_of (lv_year_results (simulate_macro_models self year w0)) rk
           = Some (entry_of (fst (call_model self mk args w)))"
proof (cases rule: macro_steps [of self year w0])
  case (steps o1 w1 o2 w2 o3 w3 o4 w4 o5 w5 o6 w6 o7 w7 o8 w8 o9 w9 o10 w10)
  from assms have
     "(mk = ''global_market'' \<and> rk = ''global_market'') \<or>
      (mk = ''geopolitical'' \<and> rk = ''geopolitical'') \<or>
      (mk = ''investment'' \<and> rk = ''investment'') \<or>
      (mk = ''trade_policy'' \<and> rk = ''trade_policy'') \<or>
      (mk = ''logistics'' \<and> rk = ''logistics'') \<or>
      (mk = ''exchange_rate'' \<and> rk = ''exchange_rate'') \<or>
      (mk = ''compliance'' \<and> rk = ''compliance'') \<or>
      (mk = ''structural'' \<and> rk = ''structural_transformation'') \<or>
      (mk = ''digital_trade'' \<and> rk = ''digital_trade'') \<or>
      (mk = ''services_trade'' \<and> rk = ''services_trade'')"
    by (simp add: macro_calls_def)
  then show ?thesis
  proof (elim disjE conjE)
    assume c: "mk = ''global_market''" "rk = ''global_market''"
    from outcome_of_call [OF steps(1)] show ?thesis
      unfolding steps(11) c by simp
  next
    assume c: "mk = ''geopolitical''" "rk = ''geopolitical''"
    from outcome_of_call [OF steps(2)] show ?thesis
      unfolding steps(11) c by simp
  next
    assume c: "mk = ''investment''" "rk = ''investment''"
    from outcome_of_call [OF steps(3)] show ?thesis
      unfolding steps(11) c by simp
  next
    assume c: "mk = ''trade_policy''" "rk = ''trade_policy''"
    from outcome_of_call [OF steps(4)] show ?thesis
      unfolding steps(11) c by simp
  next
    assume c: "mk = ''logistics''" "rk = ''logistics''"
    from outcome_of_call [OF steps(5)] show ?thesis
      unfolding steps(11) c by simp
  next
    assume c: "mk = ''exchange_rate''" "rk = ''exchange_rate''"
    from outcome_of_call [OF steps(6)] show ?thesis
      unfolding steps(11) c by simp
  next
    assume c: "mk = ''compliance''" "rk = ''compliance''"
    from outcome_of_call [OF steps(7)] show ?thesis
      unfolding steps(11) c by simp
  next
    assume c: "mk = ''structural''" "rk = ''structural_transformation''"
    from outcome_of_call [OF steps(8)] show ?thesis
      unfolding steps(11) c by simp
  next
    assume c: "mk = ''digital_trade''" "rk = ''digital_trade''"
    from outcome_of_call [OF steps(9)] show ?thesis
      unfolding steps(11) c by simp
  next
    assume c: "mk = ''services_trade''" "rk = ''services_trade''"
    from outcome_of_call [OF steps(10)] show ?thesis
      unfolding steps(11) c by simp
  qed
qed

text \<open>The loops of step 5.\<close>

lemma simulate_sector_form:
  "\<exists>t'. simulate_sector verbose args (d, t, w) (name, m)
          = (AList.update name (sector_entry_of verbose (fst (m args w))) d, t', snd (m args w))"
proof (cases "m args w")
  case (Pair out w1)
  show ?thesis
  proof (cases out)
    case (Inl msg)
    with Pair show ?thesis by (simp add: simulate_sector_def sector_entry_of_def)
  next
    case (Inr r)
    with Pair show ?thesis
      by (auto simp: simulate_sector_def sector_entry_of_def Let_def split: sum.splits)
  qed
qed

lemma simulate_category_form:
  "\<exists>t'. simulate_category args (d, t, w) (name, m)
          = (AList.update name (category_entry_of (fst (m args w))) d, t', snd (m args w))"
proof (cases "m args w")
  case (Pair out w1)
  show ?thesis
  proof (cases out)
    case (Inl msg)
    with Pair show ?thesis by (simp add: simulate_category_def category_entry_of_def)
  next
    case (Inr r)
    with Pair show ?thesis
      by (auto simp: simulate_category_def category_entry_of_def Let_def split: sum.splits)
  qed
qed

text \<open>
  A loop whose every iteration stores, under the name of its model, what the call
  of the model left: the names come out in the order of the models, and every
  model has the entry of one call.
\<close>

lemma loop_details:
  fixes f :: "dict \<times> real \<times> 'w \<Rightarrow> string \<times> 'w model_fn \<Rightarrow> dict \<times> real \<times> 'w"
  assumes form: "\<And>d t w name m. \<exists>t'. f (d, t, w) (name, m)
                   = (AList.update name (entry (fst (m args w))) d, t', snd (m args w))"
    and "distinct (map fst d @ map fst ms)"
  shows "map fst (fst (foldl f (d, t, w) ms)) = map fst d @ map fst ms
       \<and> (\<forall>k. k \<notin> set (map fst ms) \<longrightarrow> map_of (fst (foldl f (d, t, w) ms)) k = map_of d k)
       \<and> (\<forall>(n, m') \<in> set ms. \<exists>v.
             map_of (fst (foldl f (d, t, w) ms)) n = Some (entry (fst (m' args v))))"
  using assms(2)
proof (induction ms arbitrary: d t w)
  case Nil
  then show ?case by simp
next
  case (Cons p ms)
  obtain name m where p: "p = (name, m)" by (cases p)
  define val where "val = entry (fst (m args w))"
  from form [of d t w name m] obtain t' where
    step: "f (d, t, w) (name, m) = (AList.update name val d, t', snd (m args w))"
    unfolding val_def by blast
  from Cons.prems have fresh: "name \<notin> set (map fst d)" and later: "name \<notin> set (map fst ms)"
    by (auto simp: p)
  have keys: "map fst (AList.update name val d) = map fst d @ [name]"
    using fresh by (simp add: update_keys)
  from Cons.prems have "distinct (map fst (AList.update name val d) @ map fst ms)"
    by (simp add: keys p)
  note IH = Cons.IH [OF this, of t' "snd (m args w)"]
  from IH have ih1: "map fst (fst (foldl f (AList.update name val d, t', snd (m args w)) ms))
              = map fst (AList.update name val d) @ map fst ms"
    by (rule conjunct1)
  from IH have ih2: "\<forall>k. k \<notin> set (map fst ms) \<longrightarrow>
        map_of (fst (foldl f (AList.update name val d, t', snd (m args w)) ms)) k
          = map_of (AList.update name val d) k"
    by (rule conjunct1 [OF conjunct2])
  from IH have ih3: "\<forall>(n, m') \<in> set ms. \<exists>v.
        map_of (fst (foldl f (AList.update name val d, t', snd (m args w)) ms)) n
          = Some (entry (fst (m' args v)))"
    by (rule conjunct2 [OF conjunct2])
  have fold: "foldl f (d, t, w) (p # ms)
      = foldl f (AList.update name val d, t', snd (m args w)) ms"
    by (simp add: p step)
  have 1: "map fst (fst (foldl f (d, t, w) (p # ms))) = map fst d @ map fst (p # ms)"
    unfolding fold ih1 keys by (simp add: p)
  have 2: "map_of (fst (foldl f (d, t, w) (p # ms))) k = map_of d k"
    if "k \<notin> set (map fst (p # ms))" for k
    using that ih2 unfolding fold by (simp add: p update_conv')
  have 3: "\<exists>v. map_of (fst (foldl f (d, t, w) (p # ms))) n = Some (entry (fst (m' args v)))"
    if "(n, m') \<in> set (p # ms)" for n m'
  proof (cases "(n, m') = (name, m)")
    case True
    with later ih2 have "map_of (fst (foldl f (d, t, w) (p # ms))) n = Some val"
      unfolding fold by (simp add: update_conv')
    with True show ?thesis unfolding val_def by blast
  next
    case False
    with that have "(n, m') \<in> set ms" by (auto simp: p)
    with ih3 show ?thesis
      unfolding fold by blast
  qed
  from 1 2 3 show ?case by blast
qed

lemma sector_loop_details:
  assumes "distinct (map fst ms)"
  shows "details_complete (sector_entry_of verbose) ms
           (fst (foldl (simulate_sector verbose args) ([], 0, w) ms))"
proof -
  from assms have "distinct (map fst ([] :: dict) @ map fst ms)" by simp
  from loop_details [of "simulate_sector verbose args" "sector_entry_of verbose" args "[]" ms 0 w,
      OF simulate_sector_form this]
  show ?thesis unfolding details_complete_def by simp blast
qed

lemma category_loop_details:
  assumes "distinct (map fst ms)"
  shows "details_complete category_entry_of ms
           (fst (foldl (simulate_category args) ([], 0, w) ms))"
proof -
  from assms have "distinct (map fst ([] :: dict) @ map fst ms)" by simp
  from loop_details [of "simulate_category args" category_entry_of args "[]" ms 0 w,
      OF simulate_category_form this]
  show ?thesis unfolding details_complete_def by simp blast
qed

text \<open>Step 5 as a whole.\<close>

lemma simulate_sectors_form:
  assumes ex: "distinct (map fst (export_models self))"
    and im: "distinct (map fst (import_models self))"
  obtains (form) edetails idetails total_exps total_imps w'
  where "simulate_sectors self year verbose lv =
           (AList.update ''import''
              (JObj [(''total_imports'', JNum total_imps),
                     (''category_details'', JObj idetails)])
              (AList.update ''export''
                 (JObj [(''total_exports'', JNum total_exps),
                        (''sector_details'', JObj edetails)])
                 (lv_year_results lv)),
            total_exps, total_imps, w')"
    and "details_complete (sector_entry_of verbose) (export_models self) edetails"
    and "details_complete category_entry_of (import_models self) idetails"
proof -
  define sargs where "sargs = [JNum (of_int (year - start_year self)),
     JObj (sector_inputs_of (lv_global_conditions lv) (lv_trade_policy_results lv)
              (lv_exchange_rate_results lv) (lv_logistics_results lv)
              (lv_compliance_results lv) (lv_digital_trade_results lv))]"
  define cargs where "cargs = [JNum (of_int (year - start_year self)),
     JObj (category_inputs_of (lv_investment_results lv) (lv_global_conditions lv)
              (lv_exchange_rate_results lv) (lv_trade_policy_results lv)
              (lv_logistics_results lv))]"
  obtain ed te w11 where
    e: "foldl (simulate_sector verbose sargs) ([], 0, lv_world lv) (export_models self)
          = (ed, te, w11)"
    by (metis prod_cases3)
  obtain idt ti w12 where
    i: "foldl (simulate_category cargs) ([], 0, w11) (import_models self) = (idt, ti, w12)"
    by (metis prod_cases3)
  from sector_loop_details [OF ex, of verbose sargs "lv_world lv"] e
  have 1: "details_complete (sector_entry_of verbose) (export_models self) ed" by simp
  from category_loop_details [OF im, of cargs w11] i
  have 2: "details_complete category_entry_of (import_models self) idt" by simp
  have "simulate_sectors self year verbose lv =
           (AList.update ''import''
              (JObj [(''total_imports'', JNum ti), (''category_details'', JObj idt)])
              (AList.update ''export''
                 (JObj [(''total_exports'', JNum te), (''sector_details'', JObj ed)])
                 (lv_year_results lv)),
            te, ti, w12)"
    unfolding simulate_sectors_def Let_def sargs_def [symmetric] cargs_def [symmetric]
      e prod.case i
    by (rule refl)
  from this 1 2 show thesis by (rule that)
qed

text \<open>Step 6 returns when the investment result passes the division.\<close>

lemma gdp_ok_empty: "gdp_ok []"
  by (simp add: gdp_ok_def dict_get_def)

lemma aggregate_metrics_returns:
  assumes "gdp_ok ir"
  obtains entry where "aggregate_metrics ir total_exps total_imps = Inr entry"
proof (cases "dict_get ir ''gdp'' (JNum 1)")
  case (JNum g)
  with assms have "g \<noteq> 0" by (simp add: gdp_ok_def)
  with JNum show thesis
    by (intro that) (simp add: aggregate_metrics_def)
qed (use assms in \<open>simp_all add: gdp_ok_def\<close>)

lemma investment_local_ok:
  assumes "investment_safe (models self)"
  shows "gdp_ok (lv_investment_results (simulate_macro_models self year w))"
proof -
  from macro_investment [of self year w]
  consider "lv_investment_results (simulate_macro_models self year w) = []"
    | args v v' where "call_model self ''investment'' args v
         = (Inr (lv_investment_results (simulate_macro_models self year w)), v')"
    by blast
  then show ?thesis
  proof cases
    case 1
    then show ?thesis by (simp add: gdp_ok_empty)
  next
    case 2
    show ?thesis
    proof (cases "models self ''investment''")
      case None
      with 2 show ?thesis by (simp add: call_model_def)
    next
      case (Some m)
      with 2 have "fst (m args v) = Inr (lv_investment_results (simulate_macro_models self year w))"
        by (simp add: call_model_def)
      moreover from assms Some
      have "case fst (m args v) of Inl msg \<Rightarrow> True | Inr r \<Rightarrow> gdp_ok r"
        by (simp add: investment_safe_def)
      ultimately show ?thesis by simp
    qed
  qed
qed

text \<open>The keys of the three summaries are not keys of the macro models.\<close>

lemma macro_result_key:
  assumes "(mk, rk) \<in> set macro_calls"
  shows "rk \<noteq> ''export''" "rk \<noteq> ''import''" "rk \<noteq> ''aggregate_metrics''"
proof -
  from assms have "rk \<in> set (map snd macro_calls)" by force
  moreover have "''export'' \<notin> set (map snd macro_calls)"
    "''import'' \<notin> set (map snd macro_calls)"
    "''aggregate_metrics'' \<notin> set (map snd macro_calls)"
    by (simp_all add: macro_calls_def)
  ultimately show "rk \<noteq> ''export''" "rk \<noteq> ''import''" "rk \<noteq> ''aggregate_metrics''"
    by blast+
qed

text \<open>One year: with a safe investment model \<open>simulate_year\<close> returns a complete
  record.\<close>

lemma simulate_year_returns:
  assumes safe: "investment_safe (models self)"
    and ex: "distinct (map fst (export_models self))"
    and im: "distinct (map fst (import_models self))"
  obtains yr w' where "TradeSimulationEngine_simulate_year self year verbose w = (Inr yr, w')"
    and "record_complete self verbose yr"
proof -
  define lv where "lv = simulate_macro_models self year w"
  from ex im show thesis
  proof (cases rule: simulate_sectors_form [of self year verbose lv])
  case (form edetails idetails total_exps total_imps w')
  note s = form(1) and ed = form(2) and idt = form(3)
  from investment_local_ok [OF safe, of year w]
  have "gdp_ok (lv_investment_results lv)" by (simp add: lv_def)
  from aggregate_metrics_returns [OF this, of total_exps total_imps]
  obtain entry where a: "aggregate_metrics (lv_investment_results lv) total_exps total_imps
      = Inr entry"
    by blast
  define yr where "yr = AList.update ''aggregate_metrics'' entry
           (AList.update ''import''
              (JObj [(''total_imports'', JNum total_imps),
                     (''category_details'', JObj idetails)])
              (AList.update ''export''
                 (JObj [(''total_exports'', JNum total_exps),
                        (''sector_details'', JObj edetails)])
                 (lv_year_results lv)))"
  have run: "TradeSimulationEngine_simulate_year self year verbose w = (Inr yr, w')"
    unfolding TradeSimulationEngine_simulate_year_def Let_def lv_def [symmetric] s prod.case a
      yr_def
    by simp
  have mk: "map fst (lv_year_results lv) = map snd macro_calls"
    unfolding lv_def by (rule macro_keys)
  have keys: "map fst yr = year_record_keys"
    unfolding yr_def update_keys mk year_record_keys_def
    by (simp add: macro_calls_def)
  have entries: "\<exists>args v. map_of yr rk = Some (entry_of (fst (call_model self mk args v)))"
    if "(mk, rk) \<in> set macro_calls" for mk rk
  proof -
    from macro_entry [OF that, of self year w] obtain args v where
      "map_of (lv_year_results lv) rk = Some (entry_of (fst (call_model self mk args v)))"
      unfolding lv_def by blast
    with macro_result_key [OF that]
    have "map_of yr rk = Some (entry_of (fst (call_model self mk args v)))"
      by (simp add: yr_def update_conv')
    then show ?thesis by blast
  qed
  have e: "map_of yr ''export''
      = Some (JObj [(''total_exports'', JNum total_exps), (''sector_details'', JObj edetails)])"
    by (simp add: yr_def update_conv')
  have i: "map_of yr ''import''
      = Some (JObj [(''total_imports'', JNum total_imps),
                    (''category_details'', JObj idetails)])"
    by (simp add: yr_def update_conv')
  have "record_complete self verbose yr"
    unfolding record_complete_def
  proof (intro conjI)
    show "map fst yr = year_record_keys" by (rule keys)
    show "\<forall>(mk, rk) \<in> set macro_calls. \<exists>args w.
            map_of yr rk = Some (entry_of (fst (call_model self mk args w)))"
      using entries by blast
    show "\<exists>total_exps details.
            map_of yr ''export''
              = Some (JObj [(''total_exports'', JNum total_exps),
                            (''sector_details'', JObj details)])
            \<and> details_complete (sector_entry_of verbose) (export_models self) details"
      using e ed by blast
    show "\<exists>total_imps details.
            map_of yr ''import''
              = Some (JObj [(''total_imports'', JNum total_imps),
                            (''category_details'', JObj details)])
            \<and> details_complete category_entry_of (import_models self) details"
      using i idt by blast
  qed
  with run show thesis by (rule that)
  qed
qed

subsection \<open>The run\<close>

text \<open>A complete record depends on the engine through its models only.\<close>

lemma record_complete_cong:
  assumes "models a = models b" "export_models a = export_models b"
    "import_models a = import_models b"
  shows "record_complete a verbose yr = record_complete b verbose yr"
  using assms by (simp add: record_complete_def call_model_def)

text \<open>One iteration of the loop of \<open>run_simulation\<close>, after a year that returned.\<close>

lemma run_years_step:
  assumes "TradeSimulationEngine_simulate_year (self\<lparr>current_year := year\<rparr>) year verbose w
             = (Inr yr, w')"
  obtains (step) next_self where
    "run_years self verbose (year # years) w = run_years next_self verbose years w'"
    "models next_self = models self"
    "export_models next_self = export_models self"
    "import_models next_self = import_models self"
    "start_year next_self = start_year self"
    "scenario next_self = scenario self"
    "save_intermediate_results next_self = save_intermediate_results self"
    "yearly_data (results next_self) = AList.update year yr (yearly_data (results self))"
    "metadata (results next_self) = metadata (results self)"
proof -
  define self2 where "self2 = self\<lparr> current_year := year,
     results := (results self)\<lparr> yearly_data := AList.update year yr (yearly_data (results self)) \<rparr> \<rparr>"
  define next_self where "next_self =
     (if year mod 5 = 0 \<and> save_intermediate_results self2
      then save_results self2 (Some (''intermediate_'' @ scenario self2 @ ''_'' @ str_int year))
      else self2)"
  have "run_years self verbose (year # years) w = run_years next_self verbose years w'"
    by (simp add: assms Let_def next_self_def self2_def)
  moreover have "models next_self = models self"
    "export_models next_self = export_models self"
    "import_models next_self = import_models self"
    "start_year next_self = start_year self"
    "scenario next_self = scenario self"
    "save_intermediate_results next_self = save_intermediate_results self"
    "yearly_data (results next_self) = AList.update year yr (yearly_data (results self))"
    "metadata (results next_self) = metadata (results self)"
    by (simp_all add: next_self_def self2_def save_results_def)
  ultimately show thesis by (rule that)
qed

text \<open>
  The loop over any list of years: the run returns, the models stay what they
  were, every year of the list has a complete record and the records of all other
  years are what they were.
\<close>

lemma run_years_contained:
  assumes "investment_safe (models self)"
    and "distinct (map fst (export_models self))"
    and "distinct (map fst (import_models self))"
  shows "\<exists>self'. fst (run_years self verbose years w) = Inr self'
     \<and> models self' = models self
     \<and> export_models self' = export_models self
     \<and> import_models self' = import_models self
     \<and> (\<forall>y. y \<notin> set years \<longrightarrow>
           map_of (yearly_data (results self')) y = map_of (yearly_data (results self)) y)
     \<and> (\<forall>y \<in> set years. \<exists>yr.
           map_of (yearly_data (results self')) y = Some yr \<and> record_complete self verbose yr)"
  using assms
proof (induction years arbitrary: self w)
  case Nil
  then show ?case by simp
next
  case (Cons year years)
  define self1 where "self1 = self\<lparr>current_year := year\<rparr>"
  have m1: "models self1 = models self" "export_models self1 = export_models self"
    "import_models self1 = import_models self"
    by (simp_all add: self1_def)
  from Cons.prems have safe1: "investment_safe (models self1)"
    and ex1: "distinct (map fst (export_models self1))"
    and im1: "distinct (map fst (import_models self1))"
    by (simp_all add: m1)
  from safe1 ex1 im1 obtain yr w' where
    y: "TradeSimulationEngine_simulate_year self1 year verbose w = (Inr yr, w')"
    and c1: "record_complete self1 verbose yr"
    by (rule simulate_year_returns)
  from c1 have c: "record_complete self verbose yr"
    by (simp add: record_complete_cong [OF m1])
  from y [unfolded self1_def] show ?case
  proof (cases rule: run_years_step [where years = years])
    case (step next_self)
    from Cons.prems step(2-4) have "investment_safe (models next_self)"
      "distinct (map fst (export_models next_self))"
      "distinct (map fst (import_models next_self))"
      by simp_all
    from Cons.IH [OF this, of w'] obtain self' where
      r: "fst (run_years next_self verbose years w') = Inr self'"
      and ms: "models self' = models next_self" "export_models self' = export_models next_self"
        "import_models self' = import_models next_self"
      and other: "\<forall>y. y \<notin> set years \<longrightarrow>
           map_of (yearly_data (results self')) y = map_of (yearly_data (results next_self)) y"
      and here: "\<forall>y \<in> set years. \<exists>yr.
           map_of (yearly_data (results self')) y = Some yr
           \<and> record_complete next_self verbose yr"
      by blast
    have cong: "record_complete next_self verbose r = record_complete self verbose r" for r
      by (rule record_complete_cong) (simp_all add: step)
    have 1: "fst (run_years self verbose (year # years) w) = Inr self'"
      unfolding step(1) by (rule r)
    have 2: "map_of (yearly_data (results self')) y = map_of (yearly_data (results self)) y"
      if "y \<notin> set (year # years)" for y
      using that other by (simp add: step(8) update_conv')
    have 3: "\<exists>yr. map_of (yearly_data (results self')) y = Some yr
                \<and> record_complete self verbose yr"
      if "y \<in> set (year # years)" for y
    proof (cases "y \<in> set years")
      case True
      with here show ?thesis by (simp add: cong)
    next
      case False
      with that have "y = year" by simp
      with False other have "map_of (yearly_data (results self')) y = Some yr"
        by (simp add: step(8) update_conv')
      with c show ?thesis by blast
    qed
    from 1 2 3 ms step(2-4) show ?thesis by auto
  qed
qed

text \<open>
  C5. Every model call of \<open>simulate_year\<close> is guarded, and a model that raises
  stops neither the year nor the run. Whatever the models do (return, raise, be
  missing from \<open>self.models\<close>), \<open>run_simulation\<close> returns, and for every year from
  \<open>start_year\<close> to \<open>end_year\<close> the results hold a complete record: all thirteen keys,
  and under the key of every macro model, every export sector and every import
  category what a call of that model left, which is the marker
  \<open>{'error': str(e)}\<close> if the call raised. The one place of \<open>simulate_year\<close> outside
  every \<open>try\<close> is the division by \<open>gdp\<close> in step 6, which is no model call; it
  succeeds when the investment model returns no \<open>gdp\<close> or a nonzero number
  (\<open>investment_safe\<close>). The names of the sectors and of the categories are the keys
  of a dict, hence distinct.
\<close>

theorem model_exceptions_are_contained:
  assumes "investment_safe (models self)"
    and "distinct (map fst (export_models self))"
    and "distinct (map fst (import_models self))"
  shows "\<exists>self'. fst (run_simulation self verbose w) = Inr self'
     \<and> (\<forall>year \<in> {start_year self..end_year self}. \<exists>yr.
           map_of (yearly_data (results self')) year = Some yr
           \<and> record_complete self verbose yr)"
proof -
  from run_years_contained [OF assms, of verbose "[start_year self..end_year self]" w]
  obtain self' where "fst (run_years self verbose [start_year self..end_year self] w) = Inr self'"
    and "\<forall>y \<in> set [start_year self..end_year self]. \<exists>yr.
           map_of (yearly_data (results self')) y = Some yr \<and> record_complete self verbose yr"
    by blast
  then show ?thesis
    by (auto simp: run_simulation_def)
qed

text \<open>
  The example engine: the global market model, the sector \<open>rmg\<close> and the category
  \<open>fuel\<close> raise, eight macro models are missing, and still every year has its
  record, with the markers and with the results of the investment model and of
  the sector \<open>jute\<close>; all five models present are called in each of the three
  years.
\<close>

lemma faulty_engine_safe:
  "investment_safe (models faulty_engine)"
  "distinct (map fst (export_models faulty_engine))"
  "distinct (map fst (import_models faulty_engine))"
  by (simp_all add: faulty_engine_def TradeSimulationEngine_init_def investment_safe_def
      returning_def gdp_ok_def dict_get_def)

lemma faulty_engine_years:
  "start_year faulty_engine = 2025" "end_year faulty_engine = 2027"
  by (simp_all add: faulty_engine_def TradeSimulationEngine_init_def)

lemma faulty_engine_calls:
  "snd (run_simulation faulty_engine True 0) = 15"
  by code_simp

lemma faulty_engine_record:
  "map_sum id (\<lambda>self'. map_of (yearly_data (results self')) 2026)
     (fst (run_simulation faulty_engine True 0))
   = Inr (Some
       [(''global_market'', error_marker ''boom''),
        (''geopolitical'', error_marker (key_error ''geopolitical'')),
        (''investment'', JObj [(''gdp'', JNum 350)]),
        (''trade_policy'', error_marker (key_error ''trade_policy'')),
        (''logistics'', error_marker (key_error ''logistics'')),
        (''exchange_rate'', error_marker (key_error ''exchange_rate'')),
        (''compliance'', error_marker (key_error ''compliance'')),
        (''structural_transformation'', error_marker (key_error ''structural'')),
        (''digital_trade'', error_marker (key_error ''digital_trade'')),
        (''services_trade'', error_marker (key_error ''services_trade'')),
        (''export'',
           JObj [(''total_exports'', JNum 1200),
                 (''sector_details'',
                    JObj [(''rmg'', error_marker ''bad sector''),
                          (''jute'', JObj [(''export_volume'', JNum 1200),
                                           (''growth_rate'', JNum 0.02)])])]),
        (''import'',
           JObj [(''total_imports'', JNum 0),
                 (''category_details'', JObj [(''fuel'', error_marker ''bad category'')])]),
        (''aggregate_metrics'',
           JObj [(''trade_balance'', JNum 1200),
                 (''trade_openness'', JNum (24 / 7)),
                 (''export_to_gdp'', JNum (24 / 7)),
                 (''import_to_gdp'', JNum 0)])])"
  by code_simp

theorem model_exceptions_are_contained_witness:
  "investment_safe (models faulty_engine)
   \<and> distinct (map fst (export_models faulty_engine))
   \<and> distinct (map fst (import_models faulty_engine))
   \<and> (\<exists>self'. fst (run_simulation faulty_engine True 0) = Inr self'
         \<and> (\<forall>year \<in> {2025..2027}. \<exists>yr.
               map_of (yearly_data (results self')) year = Some yr
               \<and> record_complete faulty_engine True yr))"
  using model_exceptions_are_contained [OF faulty_engine_safe, of True 0] faulty_engine_safe
  by (simp add: faulty_engine_years)

subsection \<open>The clock reading in the metadata\<close>








lemma retime_timestamp:
  "timestamp (metadata (retime now r)) = now"
  "yearly_data (retime now r) = yearly_data r"
  "md_scenario (metadata (retime now r)) = md_scenario (metadata r)"
  "md_start_year (metadata (retime now r)) = md_start_year (metadata r)"
  "md_end_year (metadata (retime now r)) = md_end_year (metadata r)"
  by (simp_all add: retime_def)





subsection \<open>The records of the years\<close>

text \<open>
  The keys of \<open>results['yearly_data']\<close>: a run of a new engine leaves one record for
  every year from \<open>start_year\<close> to \<open>end_year\<close>, in this order, and no other. Each is
  written once, by the assignment after \<open>simulate_year\<close>, and as a value it is not
  written again: \<open>run_years_contained\<close> has that the entries of all other years stay
  what they were.
\<close>

lemma run_years_keys:
  assumes "investment_safe (models self)"
    and "distinct (map fst (export_models self))"
    and "distinct (map fst (import_models self))"
    and "distinct years"
    and "set years \<inter> set (map fst (yearly_data (results self))) = {}"
  shows "\<exists>self'. fst (run_years self verbose years w) = Inr self'
     \<and> map fst (yearly_data (results self')) = map fst (yearly_data (results self)) @ years"
  using assms
proof (induction years arbitrary: self w)
  case Nil
  then show ?case by simp
next
  case (Cons year years)
  define self1 where "self1 = self\<lparr>current_year := year\<rparr>"
  from Cons.prems(1-3) have "investment_safe (models self1)"
    "distinct (map fst (export_models self1))" "distinct (map fst (import_models self1))"
    by (simp_all add: self1_def)
  then obtain yr w' where
    y: "TradeSimulationEngine_simulate_year self1 year verbose w = (Inr yr, w')"
    by (rule simulate_year_returns)
  from y [unfolded self1_def] show ?case
  proof (cases rule: run_years_step [where years = years])
    case (step next_self)
    from Cons.prems(5) have fresh: "year \<notin> set (map fst (yearly_data (results self)))"
      by simp
    then have keys: "map fst (yearly_data (results next_self))
        = map fst (yearly_data (results self)) @ [year]"
      by (simp add: step(8) update_keys)
    from Cons.prems step(2-4) have "investment_safe (models next_self)"
      "distinct (map fst (export_models next_self))"
      "distinct (map fst (import_models next_self))"
      by simp_all
    moreover from Cons.prems(4) have "distinct years" by simp
    moreover from Cons.prems(4,5)
    have "set years \<inter> set (map fst (yearly_data (results next_self))) = {}"
      unfolding keys by auto
    ultimately obtain self' where "fst (run_years next_self verbose years w') = Inr self'"
      and "map fst (yearly_data (results self'))
         = map fst (yearly_data (results next_self)) @ years"
      using Cons.IH [of next_self w'] by blast
    then show ?thesis
      unfolding step(1) keys by simp
  qed
qed

lemma yearly_data_years:
  assumes "investment_safe (models self)"
    and "distinct (map fst (export_models self))"
    and "distinct (map fst (import_models self))"
    and "yearly_data (results self) = []"
  shows "\<exists>self'. fst (run_simulation self verbose w) = Inr self'
     \<and> map fst (yearly_data (results self')) = [start_year self..end_year self]"
  using run_years_keys [OF assms(1-3), of "[start_year self..end_year self]" verbose w] assms(4)
  by (simp add: run_simulation_def)

text \<open>
  C7. The part of the claim about the keys holds (\<open>yearly_data_years\<close>), the part
  that a stored record is never modified by a later year does not. The record of a
  year holds the dict the geopolitical model returned, which holds under
  \<open>'trade_war_impacts'\<close> the dict \<open>simulate_trade_wars\<close> returned, and that one holds
  under \<open>'active_trade_wars'\<close> a shallow copy of \<open>self.active_trade_wars\<close>: the dicts of
  the single trade wars in it are the ones the model keeps and updates in place
  in every later year the war lasts. Here the trade war between the US and China
  starts in 2025; the result of 2025 shows it with intensity 0.75 when it is
  returned and stored, and with intensity 0.85 after the call for 2026.
  (\<open>new_trade_wars\<close> in the same result holds a copy of the inner dict and does not
  change.)
\<close>

theorem stored_trade_war_record_changes:
  "two_war_years
     = Inr ([(''us_china'', \<lparr> started_year = 2025, intensity = 0.75, duration_years = 3 \<rparr>)],
            [(''us_china'', \<lparr> started_year = 2025, intensity = 0.85, duration_years = 3 \<rparr>)])"
  by code_simp

end
